theory Spec2Isabelle
  imports Complex_Main "HOL-Library.Word" "HOL-Library.Monad_Syntax" "HOL-Library.Sublist"
    "HOL-Library.Multiset"
begin

section \<open>JavaScript values as the program sees them\<close>

text \<open>
  A JavaScript string is a sequence of 16-bit code units; \<open>substring\<close> and \<open>length\<close> count
  code units. String literals of the source are written \<open>js ''...''\<close>.
\<close>

type_synonym jsstring = "16 word list"

definition js :: "string \<Rightarrow> jsstring" where
  "js s = map of_char s"

text \<open>
  The values that reach the program are the results of \<open>response.json()\<close> and of property
  reads on them: \<open>JUndefined\<close> is the result of reading an absent property. An object is
  the list of its own properties (distinct keys). A number is given by its value; the
  program tests numbers for truthiness and hands them to the runtime, nothing else.
\<close>

datatype jsval =
    JUndefined
  | JNull
  | JBool bool
  | JNum rat
  | JStr jsstring
  | JArr "jsval list"
  | JObj "(jsstring \<times> jsval) list"

section \<open>The article record\<close>

text \<open>
  The object literal built by each adapter. Every field holds whatever value the adapter's
  expression produced, so a field read from the payload without a guard (\<open>title\<close>,
  \<open>url\<close>) may hold a value that is not a string.
\<close>

record article =
  title :: jsval
  description :: jsval
  url :: jsval
  imageUrl :: jsval
  source :: jsval
  publishedAt :: jsval
  categories :: "jsval list"

section \<open>The runtime\<close>

text \<open>
  Built-ins of the JavaScript runtime that the program calls and that are tables or
  host-defined algorithms. They are parameters of the model; every result below holds for
  each choice of them.
  \<^item> \<open>toLowerCase\<close>, \<open>toUpperCase\<close>: the Unicode case mappings of \<open>String.prototype\<close>;
  \<^item> \<open>numToString\<close>: the string of a number;
  \<^item> \<open>isoOfSeconds v\<close>: \<open>new Date(v * 1000).toISOString()\<close>, \<open>None\<close> when it throws (a
    \<open>RangeError\<close> for an invalid date);
  \<^item> \<open>dateOf v\<close>: the time value of \<open>new Date(v)\<close> in milliseconds, \<open>Invalid\<close> for an
    invalid date (its number is \<open>NaN\<close>), \<open>None\<close> when the conversion of \<open>v\<close> throws;
  \<^item> \<open>engineSort cmp xs\<close>: the arrangement in which the engine's \<open>Array.prototype.sort\<close>
    leaves the elements \<open>xs\<close> for a comparator \<open>cmp\<close> that is not a consistent order;
    ECMAScript leaves it to the implementation.
\<close>

datatype date = Invalid | Time int

record runtime =
  toLowerCase :: "jsstring \<Rightarrow> jsstring"
  toUpperCase :: "jsstring \<Rightarrow> jsstring"
  numToString :: "rat \<Rightarrow> jsstring"
  isoOfSeconds :: "jsval \<Rightarrow> jsstring option"
  dateOf :: "jsval \<Rightarrow> date option"
  engineSort :: "(article \<Rightarrow> article \<Rightarrow> int) \<Rightarrow> article list \<Rightarrow> article list"

text \<open>Truthiness, as tested by \<open>if\<close>, \<open>? :\<close>, \<open>&&\<close> and \<open>||\<close>.\<close>

fun truthy :: "jsval \<Rightarrow> bool" where
  "truthy JUndefined = False"
| "truthy JNull = False"
| "truthy (JBool b) = b"
| "truthy (JNum n) = (n \<noteq> 0)"
| "truthy (JStr s) = (s \<noteq> [])"
| "truthy (JArr xs) = True"
| "truthy (JObj kvs) = True"

definition orElse :: "jsval \<Rightarrow> jsval \<Rightarrow> jsval" where
  "orElse a b = (if truthy a then a else b)"

text \<open>
  Property read \<open>v.k\<close> for the property names this program reads (none of them is a
  property of a prototype): a \<open>TypeError\<close> on \<open>undefined\<close> and \<open>null\<close>, the own property of
  an object, \<open>undefined\<close> otherwise. \<open>None\<close> is the thrown exception.
\<close>

fun getProp :: "jsval \<Rightarrow> jsstring \<Rightarrow> jsval option" where
  "getProp JUndefined k = None"
| "getProp JNull k = None"
| "getProp (JObj kvs) k = Some (case map_of kvs k of None \<Rightarrow> JUndefined | Some v \<Rightarrow> v)"
| "getProp (JBool b) k = Some JUndefined"
| "getProp (JNum n) k = Some JUndefined"
| "getProp (JStr s) k = Some JUndefined"
| "getProp (JArr xs) k = Some JUndefined"

text \<open>Optional chaining \<open>v?.k\<close>: \<open>undefined\<close> when \<open>v\<close> is \<open>undefined\<close> or \<open>null\<close>.\<close>

definition optProp :: "jsval \<Rightarrow> jsstring \<Rightarrow> jsval" where
  "optProp v k = (case getProp v k of None \<Rightarrow> JUndefined | Some x \<Rightarrow> x)"

text \<open>
  String conversion (template literals, \<open>+\<close> with a string, \<open>join\<close>). A parsed object has
  \<open>Object.prototype.toString\<close> unless an own property \<open>toString\<close> shadows it; that property
  is data, not a function, and the conversion then throws a \<open>TypeError\<close> (\<open>None\<close>).
  \<open>join\<close> converts \<open>undefined\<close> and \<open>null\<close> elements to the empty string.
\<close>

fun toStr :: "runtime \<Rightarrow> jsval \<Rightarrow> jsstring option"
  and joinStr :: "runtime \<Rightarrow> jsstring \<Rightarrow> jsval list \<Rightarrow> jsstring option" where
  "toStr rt JUndefined = Some (js ''undefined'')"
| "toStr rt JNull = Some (js ''null'')"
| "toStr rt (JBool b) = Some (if b then js ''true'' else js ''false'')"
| "toStr rt (JNum n) = Some (numToString rt n)"
| "toStr rt (JStr s) = Some s"
| "toStr rt (JArr xs) = joinStr rt (js '','') xs"
| "toStr rt (JObj kvs) =
     (if js ''toString'' \<in> fst ` set kvs then None else Some (js ''[object Object]''))"
| "joinStr rt sep [] = Some []"
| "joinStr rt sep (x # xs) =
     do {
       s \<leftarrow> (if x = JUndefined \<or> x = JNull then Some [] else toStr rt x);
       if xs = [] then Some s
       else do { r \<leftarrow> joinStr rt sep xs; Some (s @ sep @ r) }
     }"

section \<open>removeDuplicates\<close>

text \<open>
  \<open>article.title.toLowerCase().substring(0, 50)\<close>: only a string has the method
  \<open>toLowerCase\<close>; on any other title the call throws a \<open>TypeError\<close> (\<open>None\<close>).
\<close>

definition dedupKey :: "runtime \<Rightarrow> article \<Rightarrow> jsstring option" where
  "dedupKey rt a = (case title a of JStr s \<Rightarrow> Some (take 50 (toLowerCase rt s)) | _ \<Rightarrow> None)"

text \<open>
  The \<open>filter\<close> callback with its \<open>seen\<close> set, run over the list from left to right.
\<close>

fun dedupFrom :: "runtime \<Rightarrow> jsstring set \<Rightarrow> article list \<Rightarrow> article list option" where
  "dedupFrom rt seen [] = Some []"
| "dedupFrom rt seen (a # as) =
     (case dedupKey rt a of
        None \<Rightarrow> None
      | Some k \<Rightarrow>
          if k \<in> seen then dedupFrom rt seen as
          else map_option (Cons a) (dedupFrom rt (insert k seen) as))"

definition removeDuplicates :: "runtime \<Rightarrow> article list \<Rightarrow> article list option" where
  "removeDuplicates rt news = dedupFrom rt {} news"

text \<open>
  What the specification says of deduplication: an article's key is its lower-cased title
  cut to the first 50 characters, and of each key the first occurrence is kept, in order.
\<close>

definition hasTextTitle :: "article \<Rightarrow> bool" where
  "hasTextTitle a = (case title a of JStr s \<Rightarrow> True | _ \<Rightarrow> False)"

definition titleText :: "article \<Rightarrow> jsstring" where
  "titleText a = (case title a of JStr s \<Rightarrow> s | _ \<Rightarrow> [])"

definition prefixKey :: "runtime \<Rightarrow> article \<Rightarrow> jsstring" where
  "prefixKey rt a = take 50 (toLowerCase rt (titleText a))"

definition keepFirst :: "('a \<Rightarrow> 'k) \<Rightarrow> 'a list \<Rightarrow> 'a list" where
  "keepFirst k xs =
     map (\<lambda>i. xs ! i) (filter (\<lambda>i. k (xs ! i) \<notin> set (map k (take i xs))) [0..<length xs])"

section \<open>filterNews and renderNews\<close>

text \<open>\<open>s.includes(t)\<close>: \<open>t\<close> occurs in \<open>s\<close> as a contiguous run of code units.\<close>

fun str_includes :: "jsstring \<Rightarrow> jsstring \<Rightarrow> bool" where
  "str_includes [] t = (t = [])"
| "str_includes (c # cs) t = (prefix t (c # cs) \<or> str_includes cs t)"

text \<open>\<open>trim\<close> removes white space and line terminators (ECMAScript) from both ends.\<close>

definition isWhiteSpace :: "16 word \<Rightarrow> bool" where
  "isWhiteSpace c \<longleftrightarrow>
     c \<in> {0x09, 0x0A, 0x0B, 0x0C, 0x0D, 0x20, 0xA0, 0x1680, 0x2028, 0x2029, 0x202F, 0x205F,
          0x3000, 0xFEFF} \<or> (0x2000 \<le> c \<and> c \<le> 0x200A)"

definition trim :: "jsstring \<Rightarrow> jsstring" where
  "trim s = rev (dropWhile isWhiteSpace (rev (dropWhile isWhiteSpace s)))"

text \<open>A \<open>filter\<close> whose callback may throw.\<close>

fun filterM :: "('a \<Rightarrow> bool option) \<Rightarrow> 'a list \<Rightarrow> 'a list option" where
  "filterM p [] = Some []"
| "filterM p (x # xs) =
     do { b \<leftarrow> p x; ys \<leftarrow> filterM p xs; Some (if b then x # ys else ys) }"

definition categoryMatch :: "runtime \<Rightarrow> jsstring \<Rightarrow> article \<Rightarrow> bool option" where
  "categoryMatch rt flt a =
     do {
       t \<leftarrow> toStr rt (title a);
       d \<leftarrow> toStr rt (description a);
       c \<leftarrow> joinStr rt (js '' '') (categories a);
       Some (str_includes (toLowerCase rt (t @ js '' '' @ d @ js '' '' @ c)) (toLowerCase rt flt))
     }"

definition searchMatch :: "runtime \<Rightarrow> jsstring \<Rightarrow> article \<Rightarrow> bool option" where
  "searchMatch rt searchTerm a =
     do {
       t \<leftarrow> toStr rt (title a);
       d \<leftarrow> toStr rt (description a);
       sc \<leftarrow> toStr rt (source a);
       Some (str_includes (toLowerCase rt (t @ js '' '' @ d @ js '' '' @ sc)) searchTerm)
     }"

text \<open>
  The list that \<open>filterNews\<close> hands to \<open>renderNews\<close>, from the article list, the current
  filter and the text of the search box.
\<close>

definition applyFilters :: "runtime \<Rightarrow> article list \<Rightarrow> jsstring \<Rightarrow> jsstring \<Rightarrow> article list option" where
  "applyFilters rt news flt search =
     do {
       filtered \<leftarrow> (if flt \<noteq> js ''all'' then filterM (categoryMatch rt flt) news else Some news);
       let searchTerm = trim (toLowerCase rt search) in
       if searchTerm \<noteq> [] then filterM (searchMatch rt searchTerm) filtered else Some filtered
     }"

text \<open>
  What the page shows in \<open>newsContainer\<close>. A card is given by the strings that
  \<open>createNewsCard\<close> puts into its template; its date is the \<open>Date\<close> that \<open>formatDate\<close> builds
  from \<open>publishedAt\<close> (the text shown for it depends on the current time). The random
  fallback image of \<open>onerror\<close> is left out of the card.
\<close>

record card =
  cardUrl :: jsstring
  cardImage :: jsstring
  cardAlt :: jsstring
  cardSource :: jsstring
  cardTags :: "jsstring list"
  cardTitle :: jsstring
  cardDescription :: jsstring
  cardDate :: date

datatype view = Loading | ErrorMessage | NoResults | Cards "card list"

text \<open>
  The controller's fields, with the parts of the page it reads and writes: the text of the
  search box, the content of the container, the number in the article count, the text of
  the last update. \<open>currentFilter\<close> is the \<open>data-filter\<close> attribute of a filter button, a
  string.
\<close>

record app =
  allNews :: "article list"
  currentFilter :: jsstring
  isLoading :: bool
  searchValue :: jsstring
  container :: view
  articleCount :: nat
  lastUpdate :: jsstring

text \<open>A \<open>map\<close> whose callback may throw.\<close>

fun mapM :: "('a \<Rightarrow> 'b option) \<Rightarrow> 'a list \<Rightarrow> 'b list option" where
  "mapM f [] = Some []"
| "mapM f (x # xs) = do { y \<leftarrow> f x; ys \<leftarrow> mapM f xs; Some (y # ys) }"

text \<open>
  \<open>escapeHtml\<close>: the assignment to \<open>textContent\<close> takes \<open>undefined\<close> and \<open>null\<close> as the empty
  text and converts any other value to a string; \<open>innerHTML\<close> then gives the text with
  \<open>&\<close>, \<open><\<close>, \<open>>\<close> and the no-break space escaped.
\<close>

definition escapeUnit :: "16 word \<Rightarrow> jsstring" where
  "escapeUnit c =
     (if c = of_char CHR ''&'' then js ''&amp;''
      else if c = of_char CHR ''<'' then js ''&lt;''
      else if c = of_char CHR ''>'' then js ''&gt;''
      else if c = 0xA0 then js ''&nbsp;''
      else [c])"

definition escapeHtml :: "runtime \<Rightarrow> jsval \<Rightarrow> jsstring option" where
  "escapeHtml rt v =
     (if v = JUndefined \<or> v = JNull then Some []
      else map_option (\<lambda>s. concat (map escapeUnit s)) (toStr rt v))"

text \<open>
  \<open>createNewsCard\<close>: \<open>formatDate\<close> builds \<open>new Date(article.publishedAt)\<close>, the first two
  categories and the fields \<open>url\<close>, \<open>imageUrl\<close>, \<open>title\<close>, \<open>source\<close> are converted to strings by
  the template literals, \<open>title\<close> and \<open>description\<close> go through \<open>escapeHtml\<close>. \<open>None\<close>: one of
  the conversions throws.
\<close>

definition createNewsCard :: "runtime \<Rightarrow> article \<Rightarrow> card option" where
  "createNewsCard rt article =
     do {
       date \<leftarrow> dateOf rt (publishedAt article);
       categoryTags \<leftarrow> mapM (toStr rt) (take 2 (categories article));
       u \<leftarrow> toStr rt (url article);
       img \<leftarrow> toStr rt (imageUrl article);
       alt \<leftarrow> toStr rt (title article);
       src \<leftarrow> toStr rt (source article);
       t \<leftarrow> escapeHtml rt (title article);
       d \<leftarrow> escapeHtml rt (description article);
       Some \<lparr>cardUrl = u, cardImage = img, cardAlt = alt, cardSource = src,
             cardTags = categoryTags, cardTitle = t, cardDescription = d, cardDate = date\<rparr>
     }"

text \<open>
  \<open>renderNews\<close> writes the article count, then the container: the state after the call, and
  whether the call ended by an exception (thrown by \<open>createNewsCard\<close>, after the count was
  written and before the container is).
\<close>

definition renderNews :: "runtime \<Rightarrow> article list \<Rightarrow> app \<Rightarrow> app \<times> bool" where
  "renderNews rt news s =
     (let s1 = s\<lparr>articleCount := length news\<rparr> in
      if length news = 0 then (s1\<lparr>container := NoResults\<rparr>, False)
      else (case mapM (createNewsCard rt) news of
              None \<Rightarrow> (s1, True)
            | Some cards \<Rightarrow> (s1\<lparr>container := Cards cards\<rparr>, False)))"

text \<open>
  \<open>filterNews\<close>: the state after the call, and whether the call ended by an exception, of a
  filter callback or of \<open>renderNews\<close>.
\<close>

definition filterNews :: "runtime \<Rightarrow> app \<Rightarrow> app \<times> bool" where
  "filterNews rt s =
     (case applyFilters rt (allNews s) (currentFilter s) (searchValue s) of
        None \<Rightarrow> (s, True)
      | Some filtered \<Rightarrow> renderNews rt filtered s)"

definition showLoading :: "app \<Rightarrow> app" where
  "showLoading s = s\<lparr>container := Loading\<rparr>"

definition showError :: "app \<Rightarrow> app" where
  "showError s = s\<lparr>container := ErrorMessage\<rparr>"

definition updateLastUpdate :: "jsstring \<Rightarrow> app \<Rightarrow> app" where
  "updateLastUpdate localeTime s = s\<lparr>lastUpdate := js ''Last updated: '' @ localeTime\<rparr>"

section \<open>Sorting by date\<close>

text \<open>
  The comparator \<open>new Date(b.publishedAt) - new Date(a.publishedAt)\<close>. The difference of an
  invalid date is \<open>NaN\<close>, which \<open>sort\<close> takes as \<open>+0\<close>.
\<close>

definition compareNews :: "runtime \<Rightarrow> article \<Rightarrow> article \<Rightarrow> int option" where
  "compareNews rt a b =
     do {
       db \<leftarrow> dateOf rt (publishedAt b);
       da \<leftarrow> dateOf rt (publishedAt a);
       Some (case (db, da) of (Time tb, Time ta) \<Rightarrow> tb - ta | _ \<Rightarrow> 0)
     }"

text \<open>
  Stable insertion from the right, with this comparator. When every date is valid the
  comparator is a consistent order, and \<open>Array.prototype.sort\<close>, which is stable, returns in
  every engine the one stable sorted arrangement, which this insertion computes.
\<close>

fun insertNews :: "runtime \<Rightarrow> article \<Rightarrow> article list \<Rightarrow> article list option" where
  "insertNews rt a [] = Some [a]"
| "insertNews rt a (b # bs) =
     do {
       c \<leftarrow> compareNews rt a b;
       if c \<le> 0 then Some (a # b # bs)
       else do { r \<leftarrow> insertNews rt a bs; Some (b # r) }
     }"

fun stableSortNews :: "runtime \<Rightarrow> article list \<Rightarrow> article list option" where
  "stableSortNews rt [] = Some []"
| "stableSortNews rt (a # as) = do { r \<leftarrow> stableSortNews rt as; insertNews rt a r }"

text \<open>The time of an article, when its \<open>publishedAt\<close> is a valid date.\<close>

definition timeOf :: "runtime \<Rightarrow> article \<Rightarrow> int option" where
  "timeOf rt a = (case dateOf rt (publishedAt a) of Some (Time t) \<Rightarrow> Some t | _ \<Rightarrow> None)"

definition notOlder :: "runtime \<Rightarrow> article \<Rightarrow> article \<Rightarrow> bool" where
  "notOlder rt a b =
     (case (timeOf rt a, timeOf rt b) of (Some ta, Some tb) \<Rightarrow> ta \<ge> tb | _ \<Rightarrow> False)"

text \<open>Newest first: whenever \<open>a\<close> precedes \<open>b\<close> in the list, \<open>a\<close> is not older than \<open>b\<close>.\<close>

definition newestFirst :: "runtime \<Rightarrow> article list \<Rightarrow> bool" where
  "newestFirst rt xs = sorted_wrt (notOlder rt) xs"

text \<open>The comparator as \<open>sort\<close> reads it, for dates whose conversion does not throw.\<close>

definition sortCompare :: "runtime \<Rightarrow> article \<Rightarrow> article \<Rightarrow> int" where
  "sortCompare rt a b = (case compareNews rt a b of Some c \<Rightarrow> c | None \<Rightarrow> 0)"

text \<open>
  \<open>this.allNews.sort(...)\<close>. An array of fewer than two elements is left as it is, without a
  call of the comparator. Otherwise every element is compared at least once, so the sort
  throws when the conversion of some \<open>publishedAt\<close> throws. When every date is valid the
  result is the stable sorted arrangement; when some date is invalid the comparator is not
  a consistent order and the arrangement is the engine's.
\<close>

definition sortNews :: "runtime \<Rightarrow> article list \<Rightarrow> article list option" where
  "sortNews rt xs =
     (if length xs < 2 then Some xs
      else if \<exists>a\<in>set xs. dateOf rt (publishedAt a) = None then None
      else if \<forall>a\<in>set xs. timeOf rt a \<noteq> None then stableSortNews rt xs
      else Some (engineSort rt (sortCompare rt) xs))"

section \<open>Merging the settled adapter results\<close>

text \<open>
  An element of the array of \<open>Promise.allSettled\<close>. The value of a fulfilled promise is an
  array of articles, or a falsy value (\<open>None\<close>).
\<close>

datatype settled = Fulfilled "article list option" | Rejected

definition mergeStep :: "article list \<Rightarrow> settled \<Rightarrow> article list" where
  "mergeStep acc result =
     (case result of Fulfilled (Some v) \<Rightarrow> acc @ v | _ \<Rightarrow> acc)"

definition mergeResults :: "settled list \<Rightarrow> article list" where
  "mergeResults results = fold (\<lambda>result acc. mergeStep acc result) results []"

definition succeeded :: "settled \<Rightarrow> bool" where
  "succeeded r = (case r of Fulfilled (Some v) \<Rightarrow> True | _ \<Rightarrow> False)"

definition outputOf :: "settled \<Rightarrow> article list" where
  "outputOf r = (case r of Fulfilled (Some v) \<Rightarrow> v | _ \<Rightarrow> [])"

section \<open>The source adapters\<close>

text \<open>
  What \<open>fetch\<close> and \<open>response.json()\<close> give an adapter: a rejected \<open>fetch\<close>, or a response
  with its status and its parsed body (\<open>None\<close> when the body is not JSON and \<open>json()\<close>
  rejects). The adapters do not look at the status.
\<close>

datatype response = NetworkError | Response nat "jsval option"

text \<open>
  \<open>getPlaceholderImage\<close>. The index \<open>Math.floor(Math.random() * placeholders.length)\<close> is a
  computation in floating point on a random number; its value \<open>i\<close> is an input of the model.
\<close>

definition placeholders :: "jsstring list" where
  "placeholders =
     [js ''https://images.unsplash.com/photo-1518546305927-5a555bb7020d?w=400&h=200&fit=crop'',
      js ''https://images.unsplash.com/photo-1621761191319-c6fb62004040?w=400&h=200&fit=crop'',
      js ''https://images.unsplash.com/photo-1639762681485-074b7f938ba0?w=400&h=200&fit=crop'',
      js ''https://images.unsplash.com/photo-1622630998477-20aa696ecb05?w=400&h=200&fit=crop'',
      js ''https://images.unsplash.com/photo-1516245834210-c4c142787335?w=400&h=200&fit=crop'']"

definition getPlaceholderImage :: "nat \<Rightarrow> jsval" where
  "getPlaceholderImage i =
     (if i < length placeholders then JStr (placeholders ! i) else JUndefined)"

text \<open>
  \<open>v.substring(0, n)\<close>: only a string has the method. \<open>v?.substring(0, n)\<close> is \<open>undefined\<close>
  on \<open>undefined\<close> and \<open>null\<close>. \<open>v?.[0]\<close> reads the property \<open>0\<close>.
\<close>

definition substring0 :: "nat \<Rightarrow> jsval \<Rightarrow> jsstring option" where
  "substring0 n v = (case v of JStr s \<Rightarrow> Some (take n s) | _ \<Rightarrow> None)"

definition optSubstring0 :: "nat \<Rightarrow> jsval \<Rightarrow> jsval option" where
  "optSubstring0 n v =
     (if v = JUndefined \<or> v = JNull then Some JUndefined
      else map_option JStr (substring0 n v))"

definition optIndex0 :: "jsval \<Rightarrow> jsval" where
  "optIndex0 v =
     (case v of
        JArr xs \<Rightarrow> (case xs of [] \<Rightarrow> JUndefined | x # _ \<Rightarrow> x)
      | JStr s \<Rightarrow> (case s of [] \<Rightarrow> JUndefined | c # _ \<Rightarrow> JStr [c])
      | JObj kvs \<Rightarrow> (case map_of kvs (js ''0'') of None \<Rightarrow> JUndefined | Some x \<Rightarrow> x)
      | _ \<Rightarrow> JUndefined)"

text \<open>\<open>s.split(sep)\<close> for a separator of one code unit.\<close>

fun splitBy :: "16 word \<Rightarrow> jsstring \<Rightarrow> jsstring list" where
  "splitBy sep [] = [[]]"
| "splitBy sep (c # cs) =
     (if c = sep then [] # splitBy sep cs
      else (case splitBy sep cs of [] \<Rightarrow> [[c]] | p # ps \<Rightarrow> (c # p) # ps))"

text \<open>\<open>map\<close> with a callback that may throw; the callback gets the index.\<close>

fun mapIdx :: "(nat \<Rightarrow> 'a \<Rightarrow> 'b option) \<Rightarrow> nat \<Rightarrow> 'a list \<Rightarrow> 'b list option" where
  "mapIdx f i [] = Some []"
| "mapIdx f i (x # xs) = do { y \<leftarrow> f i x; ys \<leftarrow> mapIdx f (Suc i) xs; Some (y # ys) }"

text \<open>
  The object literal of \<open>fetchCryptoCompareNews\<close> for one element of \<open>data.Data\<close>;
  \<open>r\<close> is the random index of \<open>getPlaceholderImage\<close> for this element.
\<close>

definition cryptoCompareArticle :: "runtime \<Rightarrow> nat \<Rightarrow> jsval \<Rightarrow> article option" where
  "cryptoCompareArticle rt r article =
     do {
       t \<leftarrow> getProp article (js ''title'');
       body \<leftarrow> getProp article (js ''body'');
       d \<leftarrow> (if truthy body
              then do { b \<leftarrow> substring0 200 body; Some (JStr (b @ js ''...'')) }
              else Some (JStr []));
       u \<leftarrow> getProp article (js ''url'');
       img \<leftarrow> getProp article (js ''imageurl'');
       si \<leftarrow> getProp article (js ''source_info'');
       src \<leftarrow> getProp article (js ''source'');
       po \<leftarrow> getProp article (js ''published_on'');
       iso \<leftarrow> isoOfSeconds rt po;
       cs \<leftarrow> getProp article (js ''categories'');
       cats \<leftarrow> (if truthy cs
                 then (case cs of JStr c \<Rightarrow> Some (map JStr (splitBy (of_char CHR ''|'') c))
                       | _ \<Rightarrow> None)
                 else Some []);
       Some \<lparr>title = t,
             description = d,
             url = u,
             imageUrl = orElse img (getPlaceholderImage r),
             source = orElse (optProp si (js ''name'')) (orElse src (JStr (js ''CryptoCompare''))),
             publishedAt = JStr iso,
             categories = cats\<rparr>
     }"

text \<open>
  The \<open>try\<close> block of each adapter (\<open>None\<close>: an exception was thrown in it), and the adapter
  with its \<open>catch\<close>, which returns the empty array: the settled state of its promise.
\<close>

definition tryCryptoCompareNews :: "runtime \<Rightarrow> (nat \<Rightarrow> nat) \<Rightarrow> response \<Rightarrow> article list option" where
  "tryCryptoCompareNews rt rnd resp =
     (case resp of
        NetworkError \<Rightarrow> None
      | Response status body \<Rightarrow>
          do {
            data \<leftarrow> body;
            d \<leftarrow> getProp data (js ''Data'');
            if truthy d
            then (case d of
                    JArr xs \<Rightarrow> mapIdx (\<lambda>i. cryptoCompareArticle rt (rnd i)) 0 xs
                  | _ \<Rightarrow> None)
            else Some []
          })"

definition fetchCryptoCompareNews :: "runtime \<Rightarrow> (nat \<Rightarrow> nat) \<Rightarrow> response \<Rightarrow> settled" where
  "fetchCryptoCompareNews rt rnd resp =
     (case tryCryptoCompareNews rt rnd resp of
        Some news \<Rightarrow> Fulfilled (Some news)
      | None \<Rightarrow> Fulfilled (Some []))"

text \<open>
  \<open>fetchCoinGeckoNews\<close>: \<open>now\<close> is \<open>new Date().toISOString()\<close> for this element.
\<close>

definition coinGeckoArticle :: "runtime \<Rightarrow> nat \<Rightarrow> jsstring \<Rightarrow> jsval \<Rightarrow> article option" where
  "coinGeckoArticle rt r now item =
     do {
       it \<leftarrow> getProp item (js ''item'');
       name \<leftarrow> getProp it (js ''name'');
       nameS \<leftarrow> toStr rt name;
       symbol \<leftarrow> getProp it (js ''symbol'');
       upper \<leftarrow> (case symbol of JStr sy \<Rightarrow> Some (toUpperCase rt sy) | _ \<Rightarrow> None);
       rank \<leftarrow> getProp it (js ''market_cap_rank'');
       rankS \<leftarrow> toStr rt (orElse rank (JStr (js ''N/A'')));
       ident \<leftarrow> getProp it (js ''id'');
       identS \<leftarrow> toStr rt ident;
       large \<leftarrow> getProp it (js ''large'');
       thumb \<leftarrow> getProp it (js ''thumb'');
       Some \<lparr>title = JStr (nameS @ js '' ('' @ upper @ js '') is Trending!''),
             description = JStr (nameS @
               js '' is currently trending on CoinGecko. Market Cap Rank: #'' @ rankS),
             url = JStr (js ''https://www.coingecko.com/en/coins/'' @ identS),
             imageUrl = orElse large (orElse thumb (getPlaceholderImage r)),
             source = JStr (js ''CoinGecko Trending''),
             publishedAt = JStr now,
             categories = [JStr (js ''trending''), JStr (js ''market'')]\<rparr>
     }"

definition tryCoinGeckoNews ::
  "runtime \<Rightarrow> (nat \<Rightarrow> nat) \<Rightarrow> (nat \<Rightarrow> jsstring) \<Rightarrow> response \<Rightarrow> article list option" where
  "tryCoinGeckoNews rt rnd now resp =
     (case resp of
        NetworkError \<Rightarrow> None
      | Response status body \<Rightarrow>
          do {
            data \<leftarrow> body;
            coins \<leftarrow> getProp data (js ''coins'');
            if truthy coins
            then (case coins of
                    JArr xs \<Rightarrow> mapIdx (\<lambda>i. coinGeckoArticle rt (rnd i) (now i)) 0 (take 5 xs)
                  | _ \<Rightarrow> None)
            else Some []
          })"

definition fetchCoinGeckoNews ::
  "runtime \<Rightarrow> (nat \<Rightarrow> nat) \<Rightarrow> (nat \<Rightarrow> jsstring) \<Rightarrow> response \<Rightarrow> settled" where
  "fetchCoinGeckoNews rt rnd now resp =
     (case tryCoinGeckoNews rt rnd now resp of
        Some news \<Rightarrow> Fulfilled (Some news)
      | None \<Rightarrow> Fulfilled (Some []))"

text \<open>\<open>fetchAlternativeNews\<close>, the status updates.\<close>

definition statusUpdateArticle :: "runtime \<Rightarrow> nat \<Rightarrow> jsstring \<Rightarrow> jsval \<Rightarrow> article option" where
  "statusUpdateArticle rt r now update =
     do {
       project \<leftarrow> getProp update (js ''project'');
       desc \<leftarrow> getProp update (js ''description'');
       let pname = optProp project (js ''name'') in
       do {
         t \<leftarrow> (if truthy pname
                then do {
                  pnameS \<leftarrow> toStr rt pname;
                  sub \<leftarrow> optSubstring0 60 desc;
                  subS \<leftarrow> toStr rt (orElse sub (JStr (js ''Update'')));
                  Some (JStr (pnameS @ js '': '' @ subS @ js ''...''))
                }
                else do {
                  sub \<leftarrow> optSubstring0 80 desc;
                  Some (orElse sub (JStr (js ''Crypto Update'')))
                });
         created \<leftarrow> getProp update (js ''created_at'');
         cat \<leftarrow> getProp update (js ''category'');
         Some \<lparr>title = t,
               description = orElse desc (JStr []),
               url = orElse (optIndex0 (optProp (optProp project (js ''links'')) (js ''homepage'')))
                       (JStr (js ''#'')),
               imageUrl = orElse (optProp (optProp project (js ''image'')) (js ''large''))
                            (getPlaceholderImage r),
               source = orElse pname (JStr (js ''Crypto Project'')),
               publishedAt = orElse created (JStr now),
               categories = [orElse cat (JStr (js ''update''))]\<rparr>
       }
     }"

definition tryAlternativeNews ::
  "runtime \<Rightarrow> (nat \<Rightarrow> nat) \<Rightarrow> (nat \<Rightarrow> jsstring) \<Rightarrow> response \<Rightarrow> article list option" where
  "tryAlternativeNews rt rnd now resp =
     (case resp of
        NetworkError \<Rightarrow> None
      | Response status body \<Rightarrow>
          do {
            data \<leftarrow> body;
            updates \<leftarrow> getProp data (js ''status_updates'');
            if truthy updates
            then (case updates of
                    JArr xs \<Rightarrow> mapIdx (\<lambda>i. statusUpdateArticle rt (rnd i) (now i)) 0 xs
                  | _ \<Rightarrow> None)
            else Some []
          })"

definition fetchAlternativeNews ::
  "runtime \<Rightarrow> (nat \<Rightarrow> nat) \<Rightarrow> (nat \<Rightarrow> jsstring) \<Rightarrow> response \<Rightarrow> settled" where
  "fetchAlternativeNews rt rnd now resp =
     (case tryAlternativeNews rt rnd now resp of
        Some news \<Rightarrow> Fulfilled (Some news)
      | None \<Rightarrow> Fulfilled (Some []))"

section \<open>The fetch cycle\<close>

text \<open>
  What one cycle receives from outside: the outcome of the three requests, the random
  index of \<open>getPlaceholderImage\<close> and the value of \<open>new Date().toISOString()\<close> in adapter
  \<open>k\<close> at element \<open>i\<close>, and the text of \<open>now.toLocaleTimeString()\<close> when the cycle ends.
\<close>

record cycle =
  newsResponse :: response
  trendingResponse :: response
  updatesResponse :: response
  randoms :: "nat \<Rightarrow> nat \<Rightarrow> nat"
  clock :: "nat \<Rightarrow> nat \<Rightarrow> jsstring"
  localeTime :: jsstring

text \<open>\<open>Promise.allSettled\<close> of the three adapter promises.\<close>

definition settleAll :: "runtime \<Rightarrow> cycle \<Rightarrow> settled list" where
  "settleAll rt c =
     [fetchCryptoCompareNews rt (randoms c 0) (newsResponse c),
      fetchCoinGeckoNews rt (randoms c 1) (clock c 1) (trendingResponse c),
      fetchAlternativeNews rt (randoms c 2) (clock c 2) (updatesResponse c)]"

text \<open>
  \<open>fetchNews\<close> is an \<open>async\<close> function with one \<open>await\<close> of its own. \<open>fetchNews_begin\<close> is the
  code that runs when it is called, up to the \<open>await\<close>: it returns the state and whether
  the adapters were called. \<open>fetchNews_finish\<close> is the code that runs when the results have
  settled. Other events of the page run between the two.
\<close>

definition fetchNews_begin :: "app \<Rightarrow> app \<times> bool" where
  "fetchNews_begin s =
     (if isLoading s then (s, False)
      else (showLoading (s\<lparr>isLoading := True\<rparr>), True))"

text \<open>
  The \<open>try\<close> block after the \<open>await\<close>: the state when control leaves the block, and whether
  it leaves by an exception. \<open>sort\<close> works in place; when its comparator throws, the array
  is as it was merged (the engine sorts a copy and writes it back at the end).
\<close>

definition fetchNews_try :: "runtime \<Rightarrow> jsstring \<Rightarrow> settled list \<Rightarrow> app \<Rightarrow> app \<times> bool" where
  "fetchNews_try rt lt results s =
     (let s1 = s\<lparr>allNews := mergeResults results\<rparr> in
      case sortNews rt (allNews s1) of
        None \<Rightarrow> (s1, True)
      | Some ordered \<Rightarrow>
          let s2 = s1\<lparr>allNews := ordered\<rparr> in
          (case removeDuplicates rt (allNews s2) of
             None \<Rightarrow> (s2, True)
           | Some unique \<Rightarrow>
               let s3 = updateLastUpdate lt (s2\<lparr>allNews := unique\<rparr>) in
               filterNews rt s3))"

definition fetchNews_finish :: "runtime \<Rightarrow> jsstring \<Rightarrow> settled list \<Rightarrow> app \<Rightarrow> app" where
  "fetchNews_finish rt lt results s =
     (case fetchNews_try rt lt results s of
        (s', threw) \<Rightarrow> (if threw then showError s' else s')\<lparr>isLoading := False\<rparr>)"

text \<open>A whole call of \<open>fetchNews\<close>, with no other event in between.\<close>

definition fetchNews :: "runtime \<Rightarrow> cycle \<Rightarrow> app \<Rightarrow> app" where
  "fetchNews rt c s =
     (case fetchNews_begin s of
        (s', started) \<Rightarrow>
          if started then fetchNews_finish rt (localeTime c) (settleAll rt c) s' else s')"

section \<open>The page as an event loop\<close>

text \<open>
  The controller together with the cycles in flight: the calls of \<open>fetchNews\<close> that went past
  their guard and wait at the \<open>await\<close>, each with what it will receive. The events are the
  calls of \<open>fetchNews\<close> (initial load, timer, refresh button), the settling of the results of
  a cycle in flight, an input in the search box and a click on a filter button; an
  exception in one of the last two handlers ends the handler, with the state as it is then.
\<close>

record page =
  controller :: app
  pending :: "cycle list"

datatype event = Request cycle | Settle nat | SearchInput jsstring | FilterClick jsstring

fun step :: "runtime \<Rightarrow> event \<Rightarrow> page \<Rightarrow> page" where
  "step rt (Request c) p =
     (case fetchNews_begin (controller p) of
        (s', started) \<Rightarrow>
          p\<lparr>controller := s', pending := (if started then pending p @ [c] else pending p)\<rparr>)"
| "step rt (Settle i) p =
     (if i < length (pending p)
      then p\<lparr>controller :=
               fetchNews_finish rt (localeTime (pending p ! i)) (settleAll rt (pending p ! i))
                 (controller p),
             pending := take i (pending p) @ drop (Suc i) (pending p)\<rparr>
      else p)"
| "step rt (SearchInput t) p =
     (let s = (controller p)\<lparr>searchValue := t\<rparr> in
      p\<lparr>controller := fst (filterNews rt s)\<rparr>)"
| "step rt (FilterClick f) p =
     (let s = (controller p)\<lparr>currentFilter := f\<rparr> in
      p\<lparr>controller := fst (filterNews rt s)\<rparr>)"

definition run :: "runtime \<Rightarrow> event list \<Rightarrow> page \<Rightarrow> page" where
  "run rt evs p = fold (step rt) evs p"

text \<open>Single flight: at most one cycle is in flight, and the flag is set exactly then.\<close>

definition singleFlight :: "page \<Rightarrow> bool" where
  "singleFlight p \<longleftrightarrow> length (pending p) \<le> 1 \<and> (isLoading (controller p) \<longleftrightarrow> pending p \<noteq> [])"

section \<open>A runtime for concrete evaluations\<close>

text \<open>
  Case mapping of the ASCII letters, the dates of the strings used below, and the sort of
  one engine; on the values that occur in the evaluations below it agrees with ECMAScript.
\<close>

definition asciiLower :: "jsstring \<Rightarrow> jsstring" where
  "asciiLower s = map (\<lambda>c. if 0x41 \<le> c \<and> c \<le> 0x5A then c + 0x20 else c) s"

definition asciiUpper :: "jsstring \<Rightarrow> jsstring" where
  "asciiUpper s = map (\<lambda>c. if 0x61 \<le> c \<and> c \<le> 0x7A then c - 0x20 else c) s"

definition knownDate :: "jsval \<Rightarrow> date option" where
  "knownDate v =
     (if v = JObj [(js ''toString'', JNull)] then None
      else if v = JStr (js ''2024-01-01T00:00:00Z'') then Some (Time 1704067200000)
      else if v = JStr (js ''2024-01-02T00:00:00Z'') then Some (Time 1704153600000)
      else if v = JStr (js ''2024-01-03T00:00:00Z'') then Some (Time 1704240000000)
      else if v = JStr (js ''2024-01-01T00:00:00.000Z'') then Some (Time 1704067200000)
      else if v = JStr (js ''2024-01-03T00:00:00.000Z'') then Some (Time 1704240000000)
      else Some Invalid)"

definition knownSeconds :: "jsval \<Rightarrow> jsstring option" where
  "knownSeconds v =
     (if v = JNum 1704067200 then Some (js ''2024-01-01T00:00:00.000Z'') else None)"

text \<open>
  The sort of the V8 engine for an array of fewer than 64 elements: the run at the start of
  the array is counted (and reversed when it descends strictly), then each further element
  is put into the sorted part at the place that a binary search finds.
\<close>

fun runLength :: "('a \<Rightarrow> 'a \<Rightarrow> int) \<Rightarrow> bool \<Rightarrow> 'a \<Rightarrow> 'a list \<Rightarrow> nat" where
  "runLength cmp descending previous [] = 0"
| "runLength cmp descending previous (x # xs) =
     (let order = cmp x previous in
      if (if descending then order \<ge> 0 else order < 0) then 0
      else Suc (runLength cmp descending x xs))"

function binarySearch :: "('a \<Rightarrow> 'a \<Rightarrow> int) \<Rightarrow> 'a \<Rightarrow> 'a list \<Rightarrow> nat \<Rightarrow> nat \<Rightarrow> nat" where
  "binarySearch cmp pivot work left right =
     (if left < right
      then let mid = left + (right - left) div 2 in
           if cmp pivot (work ! mid) < 0 then binarySearch cmp pivot work left mid
           else binarySearch cmp pivot work (mid + 1) right
      else left)"
  by pat_completeness auto
termination
  by (relation "measure (\<lambda>(cmp, pivot, work, left, right). right - left)") auto

definition binaryInsert :: "('a \<Rightarrow> 'a \<Rightarrow> int) \<Rightarrow> 'a \<Rightarrow> 'a list \<Rightarrow> 'a list" where
  "binaryInsert cmp pivot work =
     (let left = binarySearch cmp pivot work 0 (length work) in
      take left work @ pivot # drop left work)"

definition v8ShortSort :: "('a \<Rightarrow> 'a \<Rightarrow> int) \<Rightarrow> 'a list \<Rightarrow> 'a list" where
  "v8ShortSort cmp xs =
     (case xs of
        x0 # x1 # rest \<Rightarrow>
          let descending = cmp x1 x0 < 0;
              n = 2 + runLength cmp descending x1 rest;
              firstRun = (if descending then rev (take n xs) else take n xs)
          in fold (binaryInsert cmp) (drop n xs) firstRun
      | _ \<Rightarrow> xs)"

definition asciiRuntime :: runtime where
  "asciiRuntime =
     \<lparr>toLowerCase = asciiLower, toUpperCase = asciiUpper, numToString = (\<lambda>q. js ''0''),
      isoOfSeconds = knownSeconds, dateOf = knownDate, engineSort = v8ShortSort\<rparr>"

definition plainArticle :: "string \<Rightarrow> string \<Rightarrow> article" where
  "plainArticle t p =
     \<lparr>title = JStr (js t), description = JStr [], url = JStr (js ''#''),
      imageUrl = JStr [], source = JStr (js ''CryptoCompare''),
      publishedAt = JStr (js p), categories = []\<rparr>"

text \<open>A controller at rest that holds a list and has rendered it.\<close>

definition idleApp :: "article list \<Rightarrow> app" where
  "idleApp news =
     fst (renderNews asciiRuntime news
       \<lparr>allNews = news, currentFilter = js ''all'', isLoading = False, searchValue = [],
        container = Loading, articleCount = 0, lastUpdate = []\<rparr>)"

definition freshPage :: "article list \<Rightarrow> page" where
  "freshPage news = \<lparr>controller = idleApp news, pending = []\<rparr>"

section \<open>Notions of the specification\<close>

text \<open>
  What an adapter contributes to the merge: its list, and nothing when its guard caught an
  exception.
\<close>

definition caught :: "article list option \<Rightarrow> article list" where
  "caught r = (case r of Some news \<Rightarrow> news | None \<Rightarrow> [])"

text \<open>The body text that a record of the news feed provides, empty when it provides none.\<close>

definition bodyText :: "jsval \<Rightarrow> jsstring" where
  "bodyText v = (case getProp v (js ''body'') of Some (JStr b) \<Rightarrow> b | _ \<Rightarrow> [])"

section \<open>Concrete inputs\<close>

definition exampleNewer :: article where
  "exampleNewer =
     plainArticle ''Bitcoin Surges Past $50000 As Market Rallies On ETF News Today''
       ''2024-01-02T00:00:00Z''"

definition exampleOlder :: article where
  "exampleOlder =
     plainArticle ''BITCOIN SURGES PAST $50000 AS MARKET RALLIES ON ETF Approval''
       ''2024-01-01T00:00:00Z''"

definition exampleOther :: article where
  "exampleOther = plainArticle ''Ethereum Upgrade Ships'' ''2024-01-03T00:00:00Z''"

text \<open>A record of the news feed without a title, and the article the adapter makes of it.\<close>

definition titlelessRecord :: jsval where
  "titlelessRecord =
     JObj [(js ''body'', JStr (js ''Fees fall'')), (js ''published_on'', JNum 1704067200)]"

definition titlelessArticle :: article where
  "titlelessArticle =
     \<lparr>title = JUndefined, description = JStr (js ''Fees fall...''), url = JUndefined,
      imageUrl = JStr (placeholders ! 0), source = JStr (js ''CryptoCompare''),
      publishedAt = JStr (js ''2024-01-01T00:00:00.000Z''), categories = []\<rparr>"

definition brokenCycle :: cycle where
  "brokenCycle =
     \<lparr>newsResponse = Response 200 (Some (JObj [(js ''Data'', JArr [titlelessRecord])])),
      trendingResponse = NetworkError,
      updatesResponse = Response 503 None,
      randoms = (\<lambda>k i. 0),
      clock = (\<lambda>k i. js ''2024-01-03T00:00:00.000Z''),
      localeTime = js ''12:00:00 PM''\<rparr>"

text \<open>A record of the news feed with a body of 200 code units.\<close>

definition longBody :: jsstring where
  "longBody = replicate 200 (of_char CHR ''a'')"

definition longRecord :: jsval where
  "longRecord =
     JObj [(js ''title'', JStr (js ''Ethereum Upgrade Ships'')), (js ''body'', JStr longBody),
           (js ''published_on'', JNum 1704067200)]"

definition longArticle :: article where
  "longArticle =
     \<lparr>title = JStr (js ''Ethereum Upgrade Ships''), description = JStr (longBody @ js ''...''),
      url = JUndefined, imageUrl = JStr (placeholders ! 0), source = JStr (js ''CryptoCompare''),
      publishedAt = JStr (js ''2024-01-01T00:00:00.000Z''), categories = []\<rparr>"

definition longResponse :: response where
  "longResponse = Response 200 (Some (JObj [(js ''Data'', JArr [longRecord])]))"

definition firstPlaceholder :: "nat \<Rightarrow> nat" where
  "firstPlaceholder i = 0"

text \<open>
  Status updates, the second with a \<open>created_at\<close> that is not a date, and the articles the
  adapter makes of them.
\<close>

definition statusUpdate :: "string \<Rightarrow> string \<Rightarrow> jsval" where
  "statusUpdate d t = JObj [(js ''description'', JStr (js d)), (js ''created_at'', JStr (js t))]"

definition updateArticle :: "string \<Rightarrow> string \<Rightarrow> article" where
  "updateArticle d t =
     \<lparr>title = JStr (js d), description = JStr (js d), url = JStr (js ''#''),
      imageUrl = JStr (placeholders ! 0), source = JStr (js ''Crypto Project''),
      publishedAt = JStr (js t), categories = [JStr (js ''update'')]\<rparr>"

definition undatedCycle :: cycle where
  "undatedCycle =
     \<lparr>newsResponse = NetworkError,
      trendingResponse = NetworkError,
      updatesResponse = Response 200 (Some (JObj [(js ''status_updates'',
        JArr [statusUpdate ''Mainnet launch'' ''2024-01-01T00:00:00Z'',
              statusUpdate ''Audit'' ''soon'',
              statusUpdate ''Token burn'' ''2024-01-02T00:00:00Z''])])),
      randoms = (\<lambda>k i. 0),
      clock = (\<lambda>k i. js ''2024-01-03T00:00:00.000Z''),
      localeTime = js ''12:00:00 PM''\<rparr>"

definition undatedNews :: "article list" where
  "undatedNews =
     [updateArticle ''Mainnet launch'' ''2024-01-01T00:00:00Z'',
      updateArticle ''Audit'' ''soon'',
      updateArticle ''Token burn'' ''2024-01-02T00:00:00Z'']"

text \<open>
  A status update whose \<open>category\<close> is an object with an own property \<open>toString\<close>, the
  article the adapter makes of it, and a controller with a category filter selected.
\<close>

definition shadowedUpdate :: jsval where
  "shadowedUpdate =
     JObj [(js ''description'', JStr (js ''Audit'')),
           (js ''created_at'', JStr (js ''2024-01-01T00:00:00Z'')),
           (js ''category'', JObj [(js ''toString'', JNull)])]"

definition shadowedArticle :: article where
  "shadowedArticle =
     \<lparr>title = JStr (js ''Audit''), description = JStr (js ''Audit''), url = JStr (js ''#''),
      imageUrl = JStr (placeholders ! 0), source = JStr (js ''Crypto Project''),
      publishedAt = JStr (js ''2024-01-01T00:00:00Z''),
      categories = [JObj [(js ''toString'', JNull)]]\<rparr>"

definition shadowedCycle :: cycle where
  "shadowedCycle =
     \<lparr>newsResponse = NetworkError,
      trendingResponse = NetworkError,
      updatesResponse = Response 200 (Some (JObj [(js ''status_updates'', JArr [shadowedUpdate])])),
      randoms = (\<lambda>k i. 0),
      clock = (\<lambda>k i. js ''2024-01-03T00:00:00.000Z''),
      localeTime = js ''12:00:00 PM''\<rparr>"

definition filteringApp :: app where
  "filteringApp = (idleApp [exampleOther])\<lparr>currentFilter := js ''defi''\<rparr>"

text \<open>The cards of the articles of \<open>undatedNews\<close>.\<close>

definition updateCard :: "string \<Rightarrow> date \<Rightarrow> card" where
  "updateCard d t =
     \<lparr>cardUrl = js ''#'', cardImage = placeholders ! 0, cardAlt = js d,
      cardSource = js ''Crypto Project'', cardTags = [js ''update''], cardTitle = js d,
      cardDescription = js d, cardDate = t\<rparr>"

definition undatedCards :: "card list" where
  "undatedCards =
     [updateCard ''Mainnet launch'' (Time 1704067200000),
      updateCard ''Audit'' Invalid,
      updateCard ''Token burn'' (Time 1704153600000)]"

text \<open>
  Two status updates, the second with a \<open>created_at\<close> that is an object with an own property
  \<open>toString\<close>: \<open>new Date\<close> of it throws.
\<close>

definition unsortableUpdate :: jsval where
  "unsortableUpdate =
     JObj [(js ''description'', JStr (js ''Audit'')),
           (js ''created_at'', JObj [(js ''toString'', JNull)])]"

definition unsortableArticle :: article where
  "unsortableArticle =
     \<lparr>title = JStr (js ''Audit''), description = JStr (js ''Audit''), url = JStr (js ''#''),
      imageUrl = JStr (placeholders ! 0), source = JStr (js ''Crypto Project''),
      publishedAt = JObj [(js ''toString'', JNull)], categories = [JStr (js ''update'')]\<rparr>"

definition unsortableCycle :: cycle where
  "unsortableCycle =
     \<lparr>newsResponse = NetworkError,
      trendingResponse = NetworkError,
      updatesResponse = Response 200 (Some (JObj [(js ''status_updates'',
        JArr [statusUpdate ''Mainnet launch'' ''2024-01-01T00:00:00Z'', unsortableUpdate])])),
      randoms = (\<lambda>k i. 0),
      clock = (\<lambda>k i. js ''2024-01-03T00:00:00.000Z''),
      localeTime = js ''12:00:00 PM''\<rparr>"

definition unsortableNews :: "article list" where
  "unsortableNews = [updateArticle ''Mainnet launch'' ''2024-01-01T00:00:00Z'', unsortableArticle]"

text \<open>The body of an error response.\<close>

definition rateLimited :: jsval where
  "rateLimited = JObj [(js ''error'', JStr (js ''rate limit''))]"

section \<open>Properties of deduplication\<close>

lemma dedupKey_text: "hasTextTitle a \<Longrightarrow> dedupKey rt a = Some (prefixKey rt a)"
  by (auto simp: hasTextTitle_def dedupKey_def prefixKey_def titleText_def split: jsval.splits)

lemma dedupFrom_index:
  "\<forall>a\<in>set xs. hasTextTitle a \<Longrightarrow>
   dedupFrom rt S xs =
     Some (map (\<lambda>i. xs ! i)
       (filter (\<lambda>i. prefixKey rt (xs ! i) \<notin> S \<union> set (map (prefixKey rt) (take i xs)))
          [0..<length xs]))"
proof (induction xs arbitrary: S)
  case Nil
  then show ?case by simp
next
  case (Cons a as)
  have k: "dedupKey rt a = Some (prefixKey rt a)"
    using Cons.prems by (simp add: dedupKey_text)
  have ih: "\<And>S. dedupFrom rt S as =
     Some (map (\<lambda>i. as ! i)
       (filter (\<lambda>i. prefixKey rt (as ! i) \<notin> S \<union> set (map (prefixKey rt) (take i as)))
          [0..<length as]))"
    using Cons.IH Cons.prems by simp
  have upt: "[0..<length (a # as)] = 0 # map Suc [0..<length as]"
    by (simp add: upt_conv_Cons map_Suc_upt del: upt_Suc)
  show ?case
  proof (cases "prefixKey rt a \<in> S")
    case True
    then have eq: "\<And>x Q. (x \<notin> S \<and> x \<noteq> prefixKey rt a \<and> Q) = (x \<notin> S \<and> Q)"
      by auto
    show ?thesis
      using True k by (simp only: upt) (simp add: ih filter_map comp_def eq)
  next
    case False
    then show ?thesis
      using k by (simp only: upt) (simp add: ih filter_map comp_def conj_left_commute)
  qed
qed

lemma dedupFrom_fresh:
  "dedupFrom rt S xs = Some ys \<Longrightarrow>
   (\<forall>a\<in>set ys. \<exists>k. dedupKey rt a = Some k \<and> k \<notin> S) \<and> distinct (map (dedupKey rt) ys)"
proof (induction xs arbitrary: S ys)
  case Nil
  then show ?case by simp
next
  case (Cons a as)
  then obtain k where k: "dedupKey rt a = Some k"
    by (cases "dedupKey rt a") auto
  show ?case
  proof (cases "k \<in> S")
    case True
    with Cons.prems k have "dedupFrom rt S as = Some ys" by simp
    then show ?thesis by (rule Cons.IH)
  next
    case False
    with Cons.prems k obtain zs where zs: "dedupFrom rt (insert k S) as = Some zs" "ys = a # zs"
      by auto
    from Cons.IH [OF zs(1)] show ?thesis
      using k False zs(2) by force
  qed
qed

lemma dedupFrom_fixed:
  "\<forall>a\<in>set ys. \<exists>k. dedupKey rt a = Some k \<and> k \<notin> S \<Longrightarrow> distinct (map (dedupKey rt) ys) \<Longrightarrow>
   dedupFrom rt S ys = Some ys"
proof (induction ys arbitrary: S)
  case Nil
  then show ?case by simp
next
  case (Cons a as)
  then obtain k where k: "dedupKey rt a = Some k" "k \<notin> S" by auto
  have "\<forall>b\<in>set as. \<exists>k'. dedupKey rt b = Some k' \<and> k' \<notin> insert k S"
    using Cons.prems k by force
  moreover have "distinct (map (dedupKey rt) as)" using Cons.prems by simp
  ultimately have "dedupFrom rt (insert k S) as = Some as" by (rule Cons.IH)
  then show ?case using k by simp
qed

lemma dedupFrom_throws:
  "a \<in> set news \<Longrightarrow> \<not> hasTextTitle a \<Longrightarrow> dedupFrom rt seen news = None"
proof (induction news arbitrary: seen)
  case Nil
  then show ?case by simp
next
  case (Cons b bs)
  show ?case
  proof (cases "dedupKey rt b")
    case None
    then show ?thesis by simp
  next
    case (Some k)
    then have "hasTextTitle b"
      by (auto simp: hasTextTitle_def dedupKey_def split: jsval.splits)
    with Cons.prems have "a \<in> set bs" by auto
    with Cons.IH Cons.prems(2) Some show ?thesis by simp
  qed
qed

lemma removeDuplicates_throws:
  "a \<in> set news \<Longrightarrow> \<not> hasTextTitle a \<Longrightarrow> removeDuplicates rt news = None"
  by (simp add: removeDuplicates_def dedupFrom_throws)

lemma removeDuplicates_example:
  "removeDuplicates asciiRuntime [exampleNewer, exampleOther, exampleOlder]
     = Some [exampleNewer, exampleOther]"
  by (simp add: removeDuplicates_def dedupKey_def exampleNewer_def exampleOlder_def
      exampleOther_def plainArticle_def asciiRuntime_def asciiLower_def js_def)

text \<open>
  C3: on a list of articles whose titles are text, \<open>removeDuplicates\<close> returns, in order,
  exactly the articles that are the first of their key in the list, where the key is the
  lower-cased title cut to its first 50 code units; an article whose key occurred before
  is dropped. In particular, of two articles with the same key only the first remains.
\<close>

theorem removeDuplicates_keeps_first:
  assumes "\<forall>a\<in>set news. hasTextTitle a"
  shows "removeDuplicates rt news = Some (keepFirst (prefixKey rt) news) \<and>
     (\<forall>a b. a \<in> set news \<and> b \<in> set news \<and> prefixKey rt a = prefixKey rt b \<longrightarrow>
        removeDuplicates rt [a, b] = Some [a])"
proof -
  have "removeDuplicates rt news = Some (keepFirst (prefixKey rt) news)"
    using dedupFrom_index [OF assms, of rt "{}"]
    by (simp add: removeDuplicates_def keepFirst_def)
  moreover have "removeDuplicates rt [a, b] = Some [a]"
    if "a \<in> set news" "b \<in> set news" "prefixKey rt a = prefixKey rt b" for a b
    using that assms by (simp add: removeDuplicates_def dedupKey_text)
  ultimately show ?thesis
    by blast
qed

theorem removeDuplicates_keeps_first_witness:
  "hasTextTitle exampleNewer \<and> hasTextTitle exampleOther \<and> hasTextTitle exampleOlder \<and>
   removeDuplicates asciiRuntime [exampleNewer, exampleOther, exampleOlder]
     = Some [exampleNewer, exampleOther] \<and>
   keepFirst (prefixKey asciiRuntime) [exampleNewer, exampleOther, exampleOlder]
     = [exampleNewer, exampleOther] \<and>
   prefixKey asciiRuntime exampleNewer = prefixKey asciiRuntime exampleOlder \<and>
   removeDuplicates asciiRuntime [exampleNewer, exampleOlder] = Some [exampleNewer]"
proof -
  have allText: "\<forall>a\<in>set [exampleNewer, exampleOther, exampleOlder]. hasTextTitle a"
    by (simp add: hasTextTitle_def exampleNewer_def exampleOlder_def exampleOther_def
        plainArticle_def)
  have key: "prefixKey asciiRuntime exampleNewer = prefixKey asciiRuntime exampleOlder"
    by (simp add: prefixKey_def titleText_def exampleNewer_def exampleOlder_def
        plainArticle_def asciiRuntime_def asciiLower_def js_def)
  note inst = removeDuplicates_keeps_first
    [OF allText, of asciiRuntime]
  have "removeDuplicates asciiRuntime [exampleNewer, exampleOlder] = Some [exampleNewer]"
    using inst key by simp
  moreover have "keepFirst (prefixKey asciiRuntime) [exampleNewer, exampleOther, exampleOlder]
     = [exampleNewer, exampleOther]"
    using inst removeDuplicates_example by simp
  ultimately show ?thesis
    using allText key removeDuplicates_example by simp
qed

text \<open>
  C7: deduplication is idempotent. Whenever \<open>removeDuplicates\<close> returns a list, applying it
  to that list returns the same list.
\<close>

theorem removeDuplicates_idempotent:
  "removeDuplicates rt news = Some ys \<Longrightarrow> removeDuplicates rt ys = Some ys"
  unfolding removeDuplicates_def
  using dedupFrom_fresh [of rt "{}" news ys] dedupFrom_fixed [of ys rt "{}"] by blast

theorem removeDuplicates_idempotent_witness:
  "removeDuplicates asciiRuntime [exampleNewer, exampleOther, exampleOlder]
     = Some [exampleNewer, exampleOther] \<and>
   removeDuplicates asciiRuntime [exampleNewer, exampleOther]
     = Some [exampleNewer, exampleOther]"
  using removeDuplicates_idempotent [OF removeDuplicates_example] removeDuplicates_example
  by simp

section \<open>Properties of the filter stage\<close>

text \<open>
  C8: with the category filter \<open>all\<close> and a search text that is empty after lower-casing and
  trimming, the filter stage returns the article list unchanged; the empty search text is
  such a text.
\<close>

theorem applyFilters_identity:
  "(trim (toLowerCase rt search) = [] \<longrightarrow>
      applyFilters rt news (js ''all'') search = Some news) \<and>
   (toLowerCase rt [] = [] \<longrightarrow> applyFilters rt news (js ''all'') [] = Some news)"
  by (simp add: applyFilters_def trim_def)

theorem applyFilters_identity_witness:
  "trim (toLowerCase asciiRuntime (js ''  '')) = [] \<and>
   applyFilters asciiRuntime [exampleNewer, exampleOlder] (js ''all'') (js ''  '')
     = Some [exampleNewer, exampleOlder] \<and>
   toLowerCase asciiRuntime [] = [] \<and>
   applyFilters asciiRuntime [exampleNewer, exampleOlder] (js ''all'') []
     = Some [exampleNewer, exampleOlder]"
proof -
  have blank: "trim (toLowerCase asciiRuntime (js ''  '')) = []"
    by (simp add: trim_def asciiRuntime_def asciiLower_def isWhiteSpace_def js_def)
  have empty: "toLowerCase asciiRuntime [] = []"
    by (simp add: asciiRuntime_def asciiLower_def)
  show ?thesis
    using blank empty
      applyFilters_identity [of asciiRuntime "js ''  ''" "[exampleNewer, exampleOlder]"]
    by simp
qed

section \<open>Properties of the merge\<close>

lemma fold_mergeStep:
  "fold (\<lambda>result acc. mergeStep acc result) rs acc
     = acc @ concat (map outputOf (filter succeeded rs))"
  by (induction rs arbitrary: acc)
     (auto simp: mergeStep_def outputOf_def succeeded_def split: settled.splits option.splits)

lemma mergeResults_concat:
  "mergeResults rs = concat (map outputOf (filter succeeded rs))"
  by (simp add: mergeResults_def fold_mergeStep)

lemma settled_adapters:
  "fetchCryptoCompareNews rt rnd resp
     = Fulfilled (Some (caught (tryCryptoCompareNews rt rnd resp)))"
  "fetchCoinGeckoNews rt rnd now resp
     = Fulfilled (Some (caught (tryCoinGeckoNews rt rnd now resp)))"
  "fetchAlternativeNews rt rnd now resp
     = Fulfilled (Some (caught (tryAlternativeNews rt rnd now resp)))"
  by (simp_all add: fetchCryptoCompareNews_def fetchCoinGeckoNews_def fetchAlternativeNews_def
      caught_def split: option.splits)

lemma broken_news:
  "tryCryptoCompareNews asciiRuntime (randoms brokenCycle 0) (newsResponse brokenCycle)
     = Some [titlelessArticle]"
  by (simp add: brokenCycle_def tryCryptoCompareNews_def cryptoCompareArticle_def
      titlelessRecord_def titlelessArticle_def substring0_def asciiRuntime_def knownSeconds_def
      orElse_def optProp_def getPlaceholderImage_def placeholders_def js_def)

lemma broken_others:
  "tryCoinGeckoNews asciiRuntime rnd now (trendingResponse brokenCycle) = None"
  "tryAlternativeNews asciiRuntime rnd now (updatesResponse brokenCycle) = None"
  by (simp_all add: brokenCycle_def tryCoinGeckoNews_def tryAlternativeNews_def)

lemma broken_settle:
  "settleAll asciiRuntime brokenCycle =
     [Fulfilled (Some [titlelessArticle]), Fulfilled (Some []), Fulfilled (Some [])]"
  by (simp add: settleAll_def settled_adapters broken_news broken_others caught_def)

text \<open>
  C2: the merge of the settled results is the concatenation, in order, of the arrays of the
  fulfilled ones; a rejected result adds nothing. For three results \<open>r1\<close>, \<open>r2\<close>, \<open>r3\<close>, each
  fulfilled or rejected, this covers the eight combinations. In a cycle each adapter adds
  the list of its \<open>try\<close> block, and nothing when its guard caught an exception.
\<close>

theorem merge_successful:
  "mergeResults rs = concat (map outputOf (filter succeeded rs)) \<and>
   mergeResults [r1, r2, r3] = outputOf r1 @ outputOf r2 @ outputOf r3 \<and>
   mergeResults (settleAll rt c) =
     caught (tryCryptoCompareNews rt (randoms c 0) (newsResponse c)) @
     caught (tryCoinGeckoNews rt (randoms c 1) (clock c 1) (trendingResponse c)) @
     caught (tryAlternativeNews rt (randoms c 2) (clock c 2) (updatesResponse c))"
proof -
  have three: "mergeResults [r1, r2, r3] = outputOf r1 @ outputOf r2 @ outputOf r3" for r1 r2 r3
    unfolding mergeResults_concat
    by (simp add: outputOf_def succeeded_def split: settled.splits option.splits)
  have "mergeResults (settleAll rt c) =
     caught (tryCryptoCompareNews rt (randoms c 0) (newsResponse c)) @
     caught (tryCoinGeckoNews rt (randoms c 1) (clock c 1) (trendingResponse c)) @
     caught (tryAlternativeNews rt (randoms c 2) (clock c 2) (updatesResponse c))"
    unfolding settleAll_def three settled_adapters by (simp add: outputOf_def)
  with three mergeResults_concat show ?thesis by blast
qed

theorem merge_successful_witness:
  "mergeResults [Fulfilled (Some [exampleNewer]), Rejected, Fulfilled (Some [exampleOther])]
     = [exampleNewer, exampleOther] \<and>
   mergeResults (settleAll asciiRuntime brokenCycle) = [titlelessArticle]"
  using merge_successful [of "[]" "Fulfilled (Some [exampleNewer])" Rejected
      "Fulfilled (Some [exampleOther])" asciiRuntime brokenCycle]
  by (simp add: outputOf_def caught_def broken_news broken_others)

section \<open>Properties of the sort\<close>

lemma compareNews_valid:
  "timeOf rt a = Some ta \<Longrightarrow> timeOf rt b = Some tb \<Longrightarrow> compareNews rt a b = Some (tb - ta)"
  by (auto simp: timeOf_def compareNews_def split: option.splits date.splits)

lemma notOlder_trans: "notOlder rt a b \<Longrightarrow> notOlder rt b c \<Longrightarrow> notOlder rt a c"
  by (auto simp: notOlder_def split: option.splits)

lemma insertNews_valid:
  assumes "timeOf rt a = Some ta" "\<forall>b\<in>set bs. timeOf rt b \<noteq> None"
  shows "\<exists>r. insertNews rt a bs = Some r \<and> mset r = add_mset a (mset bs) \<and>
           (sorted_wrt (notOlder rt) bs \<longrightarrow> sorted_wrt (notOlder rt) r)"
  using assms(2)
proof (induction bs)
  case Nil
  then show ?case by simp
next
  case (Cons b bs)
  then obtain tb where tb: "timeOf rt b = Some tb" by auto
  note cmp = compareNews_valid [OF assms(1) tb]
  show ?case
  proof (cases "tb - ta \<le> 0")
    case True
    then have ab: "notOlder rt a b" using assms(1) tb by (simp add: notOlder_def)
    have "sorted_wrt (notOlder rt) (a # b # bs)" if "sorted_wrt (notOlder rt) (b # bs)"
      using that ab notOlder_trans [OF ab] by auto
    then show ?thesis using True cmp by simp
  next
    case False
    then have ba: "notOlder rt b a" using assms(1) tb by (simp add: notOlder_def)
    from Cons obtain r where r: "insertNews rt a bs = Some r" "mset r = add_mset a (mset bs)"
      "sorted_wrt (notOlder rt) bs \<longrightarrow> sorted_wrt (notOlder rt) r" by auto
    have "set r = insert a (set bs)"
      using r(2) by (metis set_mset_add_mset_insert set_mset_mset)
    then have "sorted_wrt (notOlder rt) (b # r)" if "sorted_wrt (notOlder rt) (b # bs)"
      using that r(3) ba by auto
    then show ?thesis using False cmp r by simp
  qed
qed

lemma stableSortNews_valid:
  "\<forall>a\<in>set xs. timeOf rt a \<noteq> None \<Longrightarrow>
   \<exists>ys. stableSortNews rt xs = Some ys \<and> mset ys = mset xs \<and> sorted_wrt (notOlder rt) ys"
proof (induction xs)
  case Nil
  then show ?case by simp
next
  case (Cons a as)
  then obtain ys where ys: "stableSortNews rt as = Some ys" "mset ys = mset as"
    "sorted_wrt (notOlder rt) ys" by auto
  from Cons.prems obtain ta where ta: "timeOf rt a = Some ta" by auto
  have "\<forall>b\<in>set ys. timeOf rt b \<noteq> None"
    using Cons.prems ys(2) by (metis list.set_intros(2) set_mset_mset)
  from insertNews_valid [OF ta this] ys show ?case by auto
qed

lemma timeOf_dateOf: "timeOf rt a \<noteq> None \<Longrightarrow> dateOf rt (publishedAt a) \<noteq> None"
  by (auto simp: timeOf_def split: option.splits)

lemma sortNews_valid:
  assumes "\<forall>a\<in>set xs. timeOf rt a \<noteq> None"
  shows "\<exists>ys. sortNews rt xs = Some ys \<and> mset ys = mset xs \<and> sorted_wrt (notOlder rt) ys"
proof (cases "length xs < 2")
  case True
  then have short: "xs = [] \<or> (\<exists>a. xs = [a])"
    by (cases xs; cases "tl xs") auto
  from True have "sortNews rt xs = Some xs" by (simp add: sortNews_def)
  with short show ?thesis by auto
next
  case False
  have converts: "\<not> (\<exists>a\<in>set xs. dateOf rt (publishedAt a) = None)"
    using assms timeOf_dateOf by blast
  have "sortNews rt xs = stableSortNews rt xs"
    unfolding sortNews_def by (simp only: if_not_P [OF False] if_not_P [OF converts] if_P [OF assms])
  with stableSortNews_valid [OF assms] show ?thesis by simp
qed

lemma undated_merge: "mergeResults (settleAll asciiRuntime undatedCycle) = undatedNews"
  unfolding settleAll_def settled_adapters mergeResults_concat
  by (simp add: undatedCycle_def undatedNews_def tryCryptoCompareNews_def tryCoinGeckoNews_def
      tryAlternativeNews_def statusUpdateArticle_def statusUpdate_def updateArticle_def
      optSubstring0_def substring0_def optIndex0_def orElse_def optProp_def
      getPlaceholderImage_def placeholders_def caught_def outputOf_def succeeded_def js_def)

lemma undated_times:
  "timeOf asciiRuntime (updateArticle ''Mainnet launch'' ''2024-01-01T00:00:00Z'')
     = Some 1704067200000"
  "timeOf asciiRuntime (updateArticle ''Audit'' ''soon'') = None"
  "timeOf asciiRuntime (updateArticle ''Token burn'' ''2024-01-02T00:00:00Z'')
     = Some 1704153600000"
  by (simp_all add: timeOf_def updateArticle_def asciiRuntime_def knownDate_def js_def)

lemma example_sort:
  "sortNews asciiRuntime [exampleOlder, exampleOther, exampleNewer]
     = Some [exampleOther, exampleNewer, exampleOlder]"
  by (simp add: sortNews_def timeOf_def compareNews_def exampleNewer_def exampleOlder_def
      exampleOther_def plainArticle_def asciiRuntime_def knownDate_def js_def)

lemma undated_sort: "sortNews asciiRuntime undatedNews = Some undatedNews"
  by (simp add: sortNews_def timeOf_def sortCompare_def compareNews_def v8ShortSort_def
      undatedNews_def updateArticle_def asciiRuntime_def knownDate_def js_def)

lemma example_times:
  "timeOf asciiRuntime exampleOlder = Some 1704067200000"
  "timeOf asciiRuntime exampleNewer = Some 1704153600000"
  "timeOf asciiRuntime exampleOther = Some 1704240000000"
  by (simp_all add: timeOf_def exampleNewer_def exampleOlder_def exampleOther_def
      plainArticle_def asciiRuntime_def knownDate_def js_def)

text \<open>
  C4, as the specification states it, fails: of the status updates of \<open>undatedCycle\<close> the
  second has a \<open>created_at\<close> that is not a date. The comparator gives \<open>NaN\<close> against it, the
  engine's sort leaves the list as merged, and the update of 1 January precedes that of
  2 January.
\<close>

theorem sort_undated_counterexample:
  "sortNews asciiRuntime (mergeResults (settleAll asciiRuntime undatedCycle)) = Some undatedNews \<and>
   \<not> newestFirst asciiRuntime undatedNews \<and>
   timeOf asciiRuntime (undatedNews ! 0) = Some 1704067200000 \<and>
   timeOf asciiRuntime (undatedNews ! 2) = Some 1704153600000"
proof -
  have "\<not> newestFirst asciiRuntime undatedNews"
    by (simp add: newestFirst_def undatedNews_def notOlder_def undated_times)
  then show ?thesis
    by (simp add: undated_merge undated_sort) (simp add: undatedNews_def undated_times)
qed

text \<open>
  C4, amended: when the \<open>publishedAt\<close> of every article is a valid date, the sort step
  returns a rearrangement of the list in which, whenever \<open>A\<close> precedes \<open>B\<close>, the time of \<open>A\<close>
  is greater than or equal to the time of \<open>B\<close>.
\<close>

theorem sortNews_newest_first:
  assumes "\<forall>a\<in>set news. timeOf rt a \<noteq> None"
  shows "\<exists>ys. sortNews rt news = Some ys \<and> mset ys = mset news \<and> newestFirst rt ys \<and>
           (\<forall>i j. i < j \<and> j < length ys \<longrightarrow>
              (\<exists>ta tb. timeOf rt (ys ! i) = Some ta \<and> timeOf rt (ys ! j) = Some tb \<and> ta \<ge> tb))"
proof -
  from sortNews_valid [OF assms] obtain ys where ys: "sortNews rt news = Some ys"
    "mset ys = mset news" "sorted_wrt (notOlder rt) ys" by auto
  have "\<exists>ta tb. timeOf rt (ys ! i) = Some ta \<and> timeOf rt (ys ! j) = Some tb \<and> ta \<ge> tb"
    if "i < j" "j < length ys" for i j
  proof -
    from ys(3) that have "notOlder rt (ys ! i) (ys ! j)"
      unfolding sorted_wrt_iff_nth_less by blast
    then show ?thesis
      by (cases "timeOf rt (ys ! i)"; cases "timeOf rt (ys ! j)") (simp_all add: notOlder_def)
  qed
  with ys show ?thesis unfolding newestFirst_def by blast
qed

theorem sortNews_newest_first_witness:
  "timeOf asciiRuntime exampleOlder = Some 1704067200000 \<and>
   timeOf asciiRuntime exampleOther = Some 1704240000000 \<and>
   timeOf asciiRuntime exampleNewer = Some 1704153600000 \<and>
   sortNews asciiRuntime [exampleOlder, exampleOther, exampleNewer]
     = Some [exampleOther, exampleNewer, exampleOlder] \<and>
   newestFirst asciiRuntime [exampleOther, exampleNewer, exampleOlder]"
proof -
  have valid: "\<forall>a\<in>set [exampleOlder, exampleOther, exampleNewer]. timeOf asciiRuntime a \<noteq> None"
    by (simp add: example_times)
  show ?thesis
    using sortNews_newest_first [OF valid] example_sort example_times by auto
qed

section \<open>Properties of the adapters\<close>

text \<open>
  C6: the promise of each adapter is never rejected. For every outcome of the request it is
  fulfilled with a list of articles, which is empty whenever an exception was thrown in the
  \<open>try\<close> block: when \<open>fetch\<close> rejects, when the body is not JSON (whatever the status), and
  also when the expected field is absent or falsy.
\<close>

theorem adapters_never_throw:
  "(\<exists>news. fetchCryptoCompareNews rt rnd resp = Fulfilled (Some news) \<and>
       (tryCryptoCompareNews rt rnd resp = None \<longrightarrow> news = [])) \<and>
   (\<exists>news. fetchCoinGeckoNews rt rnd now resp = Fulfilled (Some news) \<and>
       (tryCoinGeckoNews rt rnd now resp = None \<longrightarrow> news = [])) \<and>
   (\<exists>news. fetchAlternativeNews rt rnd now resp = Fulfilled (Some news) \<and>
       (tryAlternativeNews rt rnd now resp = None \<longrightarrow> news = [])) \<and>
   fetchCryptoCompareNews rt rnd NetworkError = Fulfilled (Some []) \<and>
   fetchCoinGeckoNews rt rnd now NetworkError = Fulfilled (Some []) \<and>
   fetchAlternativeNews rt rnd now NetworkError = Fulfilled (Some []) \<and>
   fetchCryptoCompareNews rt rnd (Response status None) = Fulfilled (Some []) \<and>
   fetchCoinGeckoNews rt rnd now (Response status None) = Fulfilled (Some []) \<and>
   fetchAlternativeNews rt rnd now (Response status None) = Fulfilled (Some []) \<and>
   (\<not> truthy (optProp data (js ''Data'')) \<longrightarrow>
      fetchCryptoCompareNews rt rnd (Response status (Some data)) = Fulfilled (Some [])) \<and>
   (\<not> truthy (optProp data (js ''coins'')) \<longrightarrow>
      fetchCoinGeckoNews rt rnd now (Response status (Some data)) = Fulfilled (Some [])) \<and>
   (\<not> truthy (optProp data (js ''status_updates'')) \<longrightarrow>
      fetchAlternativeNews rt rnd now (Response status (Some data)) = Fulfilled (Some []))"
proof -
  have a: "fetchCryptoCompareNews rt rnd (Response status (Some data)) = Fulfilled (Some [])"
    if "\<not> truthy (optProp data (js ''Data''))"
    using that by (cases "getProp data (js ''Data'')")
      (simp_all add: fetchCryptoCompareNews_def tryCryptoCompareNews_def optProp_def)
  have b: "fetchCoinGeckoNews rt rnd now (Response status (Some data)) = Fulfilled (Some [])"
    if "\<not> truthy (optProp data (js ''coins''))"
    using that by (cases "getProp data (js ''coins'')")
      (simp_all add: fetchCoinGeckoNews_def tryCoinGeckoNews_def optProp_def)
  have c: "fetchAlternativeNews rt rnd now (Response status (Some data)) = Fulfilled (Some [])"
    if "\<not> truthy (optProp data (js ''status_updates''))"
    using that by (cases "getProp data (js ''status_updates'')")
      (simp_all add: fetchAlternativeNews_def tryAlternativeNews_def optProp_def)
  have d: "fetchCryptoCompareNews rt rnd NetworkError = Fulfilled (Some [])"
    "fetchCoinGeckoNews rt rnd now NetworkError = Fulfilled (Some [])"
    "fetchAlternativeNews rt rnd now NetworkError = Fulfilled (Some [])"
    "fetchCryptoCompareNews rt rnd (Response status None) = Fulfilled (Some [])"
    "fetchCoinGeckoNews rt rnd now (Response status None) = Fulfilled (Some [])"
    "fetchAlternativeNews rt rnd now (Response status None) = Fulfilled (Some [])"
    by (simp_all add: fetchCryptoCompareNews_def tryCryptoCompareNews_def
        fetchCoinGeckoNews_def tryCoinGeckoNews_def fetchAlternativeNews_def
        tryAlternativeNews_def)
  have e: "\<exists>news. fetchCryptoCompareNews rt rnd resp = Fulfilled (Some news) \<and>
       (tryCryptoCompareNews rt rnd resp = None \<longrightarrow> news = [])"
    "\<exists>news. fetchCoinGeckoNews rt rnd now resp = Fulfilled (Some news) \<and>
       (tryCoinGeckoNews rt rnd now resp = None \<longrightarrow> news = [])"
    "\<exists>news. fetchAlternativeNews rt rnd now resp = Fulfilled (Some news) \<and>
       (tryAlternativeNews rt rnd now resp = None \<longrightarrow> news = [])"
    by (simp_all add: settled_adapters caught_def)
  from a b c d e show ?thesis by blast
qed

theorem adapters_never_throw_witness:
  "fetchCryptoCompareNews asciiRuntime firstPlaceholder NetworkError = Fulfilled (Some []) \<and>
   fetchCoinGeckoNews asciiRuntime firstPlaceholder (clock brokenCycle 1) (Response 503 None)
     = Fulfilled (Some []) \<and>
   \<not> truthy (optProp rateLimited (js ''Data'')) \<and>
   \<not> truthy (optProp rateLimited (js ''coins'')) \<and>
   \<not> truthy (optProp rateLimited (js ''status_updates'')) \<and>
   fetchCryptoCompareNews asciiRuntime firstPlaceholder (Response 429 (Some rateLimited))
     = Fulfilled (Some []) \<and>
   fetchCoinGeckoNews asciiRuntime firstPlaceholder (clock brokenCycle 1)
     (Response 429 (Some rateLimited)) = Fulfilled (Some []) \<and>
   fetchAlternativeNews asciiRuntime firstPlaceholder (clock brokenCycle 1)
     (Response 429 (Some rateLimited)) = Fulfilled (Some []) \<and>
   tryCryptoCompareNews asciiRuntime firstPlaceholder (Response 200 (Some JNull)) = None \<and>
   fetchCryptoCompareNews asciiRuntime firstPlaceholder (Response 200 (Some JNull))
     = Fulfilled (Some [])"
proof -
  have absent:
    "\<not> truthy (optProp rateLimited (js ''Data''))"
    "\<not> truthy (optProp rateLimited (js ''coins''))"
    "\<not> truthy (optProp rateLimited (js ''status_updates''))"
    by (simp_all add: optProp_def rateLimited_def js_def)
  have thrown:
    "tryCryptoCompareNews asciiRuntime firstPlaceholder (Response 200 (Some JNull)) = None"
    by (simp add: tryCryptoCompareNews_def)
  show ?thesis
    using absent thrown
      adapters_never_throw [where rt = asciiRuntime and rnd = firstPlaceholder
        and resp = "Response 200 (Some JNull)" and now = "clock brokenCycle 1"
        and status = 503 and data = rateLimited]
      adapters_never_throw [where rt = asciiRuntime and rnd = firstPlaceholder
        and resp = "Response 200 (Some JNull)" and now = "clock brokenCycle 1"
        and status = 429 and data = rateLimited]
    by auto
qed

lemma mapIdx_nth:
  "mapIdx f i xs = Some ys \<Longrightarrow>
   length ys = length xs \<and> (\<forall>j<length xs. f (i + j) (xs ! j) = Some (ys ! j))"
proof (induction xs arbitrary: i ys)
  case Nil
  then show ?case by simp
next
  case (Cons x xs)
  then obtain y zs where y: "f i x = Some y" "mapIdx f (Suc i) xs = Some zs" "ys = y # zs"
    by (auto split: Option.bind_splits)
  from Cons.IH [OF y(2)] have ih: "length zs = length xs"
    "\<And>j. j < length xs \<Longrightarrow> f (Suc i + j) (xs ! j) = Some (zs ! j)" by auto
  have "f (i + j) ((x # xs) ! j) = Some (ys ! j)" if "j < length (x # xs)" for j
    using that y ih by (cases j) auto
  then show ?case using ih(1) y(3) by simp
qed

lemma cryptoCompareArticle_description:
  "cryptoCompareArticle rt r v = Some a \<Longrightarrow>
   description a = (if bodyText v = [] then JStr [] else JStr (take 200 (bodyText v) @ js ''...''))"
  unfolding cryptoCompareArticle_def bodyText_def
  by (cases "getProp v (js ''body'')"; cases "the (getProp v (js ''body''))")
     (auto simp: substring0_def split: Option.bind_splits if_splits)

lemma tryCryptoCompareNews_description:
  assumes "tryCryptoCompareNews rt rnd resp = Some news"
  shows "news = [] \<or> (\<exists>status data records.
           resp = Response status (Some data) \<and>
           getProp data (js ''Data'') = Some (JArr records) \<and>
           length news = length records \<and>
           (\<forall>i<length news.
              description (news ! i) =
                (if bodyText (records ! i) = [] then JStr []
                 else JStr (take 200 (bodyText (records ! i)) @ js ''...''))))"
proof (cases resp)
  case NetworkError
  with assms show ?thesis by (simp add: tryCryptoCompareNews_def)
next
  case (Response status body)
  with assms obtain data d where d: "body = Some data" "getProp data (js ''Data'') = Some d"
    by (auto simp: tryCryptoCompareNews_def split: Option.bind_splits)
  show ?thesis
  proof (cases "truthy d")
    case False
    with assms Response d show ?thesis by (simp add: tryCryptoCompareNews_def)
  next
    case True
    with assms Response d obtain records where r: "d = JArr records"
      "mapIdx (\<lambda>i. cryptoCompareArticle rt (rnd i)) 0 records = Some news"
      by (cases d) (auto simp: tryCryptoCompareNews_def)
    from mapIdx_nth [OF r(2)] have len: "length news = length records"
      and each: "\<And>j. j < length records \<Longrightarrow>
        cryptoCompareArticle rt (rnd j) (records ! j) = Some (news ! j)"
      by auto
    have "description (news ! i) =
        (if bodyText (records ! i) = [] then JStr []
         else JStr (take 200 (bodyText (records ! i)) @ js ''...''))" if "i < length news" for i
      using that len by (intro cryptoCompareArticle_description [OF each]) simp
    with len Response d r(1) show ?thesis by blast
  qed
qed

lemma long_news:
  "fetchCryptoCompareNews asciiRuntime firstPlaceholder longResponse
     = Fulfilled (Some [longArticle])"
  by (simp add: fetchCryptoCompareNews_def tryCryptoCompareNews_def cryptoCompareArticle_def
      longResponse_def longRecord_def longArticle_def longBody_def firstPlaceholder_def
      substring0_def asciiRuntime_def knownSeconds_def orElse_def optProp_def
      getPlaceholderImage_def placeholders_def js_def)

text \<open>
  C9, as the specification states it, fails: for a body of 200 code units the description
  is not the body cut to 200 code units, and it has 203 code units.
\<close>

theorem newsFeed_description_counterexample:
  "fetchCryptoCompareNews asciiRuntime firstPlaceholder longResponse
     = Fulfilled (Some [longArticle]) \<and>
   bodyText longRecord = longBody \<and>
   description longArticle \<noteq> JStr (take 200 longBody) \<and>
   description longArticle = JStr (longBody @ js ''...'') \<and>
   length (longBody @ js ''...'') = 203"
  by (simp add: long_news) (simp add: longArticle_def longBody_def longRecord_def bodyText_def js_def)

text \<open>
  C9, amended: every article that the news-feed adapter produces has as description the
  first 200 code units of the record's body followed by the three code units \<open>...\<close> (so at
  most 203 code units, and the dots also after a shorter body), and the empty string when
  the record provides no body text.
\<close>

theorem newsFeed_description:
  assumes "fetchCryptoCompareNews rt rnd resp = Fulfilled (Some news)"
  shows "(news = [] \<or> (\<exists>status data records.
            resp = Response status (Some data) \<and>
            getProp data (js ''Data'') = Some (JArr records) \<and>
            length news = length records \<and>
            (\<forall>i<length news.
               description (news ! i) =
                 (if bodyText (records ! i) = [] then JStr []
                  else JStr (take 200 (bodyText (records ! i)) @ js ''...''))))) \<and>
         (\<forall>a\<in>set news. \<exists>d. description a = JStr d \<and> length d \<le> 203)"
proof -
  have shape: "news = [] \<or> (\<exists>status data records.
            resp = Response status (Some data) \<and>
            getProp data (js ''Data'') = Some (JArr records) \<and>
            length news = length records \<and>
            (\<forall>i<length news.
               description (news ! i) =
                 (if bodyText (records ! i) = [] then JStr []
                  else JStr (take 200 (bodyText (records ! i)) @ js ''...''))))"
  proof (cases "tryCryptoCompareNews rt rnd resp")
    case None
    with assms show ?thesis by (simp add: fetchCryptoCompareNews_def)
  next
    case (Some xs)
    with assms have "xs = news" by (simp add: fetchCryptoCompareNews_def)
    with Some tryCryptoCompareNews_description show ?thesis by blast
  qed
  have "\<exists>d. description a = JStr d \<and> length d \<le> 203" if "a \<in> set news" for a
  proof -
    from that obtain i where i: "i < length news" "a = news ! i"
      by (auto simp: in_set_conv_nth)
    with shape obtain v where "description a =
        (if bodyText v = [] then JStr [] else JStr (take 200 (bodyText v) @ js ''...''))"
      by fastforce
    then show ?thesis by (auto simp: js_def)
  qed
  with shape show ?thesis by blast
qed

theorem newsFeed_description_witness:
  "fetchCryptoCompareNews asciiRuntime firstPlaceholder longResponse
     = Fulfilled (Some [longArticle]) \<and>
   (\<exists>d. description longArticle = JStr d \<and> length d \<le> 203)"
  using newsFeed_description [OF long_news] long_news by simp

section \<open>Properties of the fetch cycle\<close>

lemma idleApp_fields:
  "allNews (idleApp news) = news"
  "isLoading (idleApp news) = False"
  "currentFilter (idleApp news) = js ''all''"
  "searchValue (idleApp news) = []"
  by (simp_all add: idleApp_def renderNews_def Let_def split: option.splits)

lemma broken_try:
  "fetchNews_try asciiRuntime lt (settleAll asciiRuntime brokenCycle) s =
     (s\<lparr>allNews := [titlelessArticle]\<rparr>, True)"
  unfolding broken_settle
  by (simp add: fetchNews_try_def mergeResults_def mergeStep_def sortNews_def
      removeDuplicates_def dedupKey_def titlelessArticle_def)

lemma broken_fetchNews:
  "allNews (fetchNews asciiRuntime brokenCycle (idleApp [exampleOther])) = [titlelessArticle]"
  "container (fetchNews asciiRuntime brokenCycle (idleApp [exampleOther])) = ErrorMessage"
  "isLoading (fetchNews asciiRuntime brokenCycle (idleApp [exampleOther])) = False"
  by (simp_all add: broken_try fetchNews_def fetchNews_begin_def fetchNews_finish_def
      idleApp_fields showError_def showLoading_def)

lemma titleless_differs: "titlelessArticle \<noteq> exampleOther"
proof
  assume "titlelessArticle = exampleOther"
  then have "title titlelessArticle = title exampleOther"
    by (rule arg_cong)
  then show False
    by (simp add: titlelessArticle_def exampleOther_def plainArticle_def)
qed

lemma shadowed_merge: "mergeResults (settleAll asciiRuntime shadowedCycle) = [shadowedArticle]"
  unfolding settleAll_def settled_adapters mergeResults_concat
  by (simp add: shadowedCycle_def shadowedArticle_def shadowedUpdate_def tryCryptoCompareNews_def
      tryCoinGeckoNews_def tryAlternativeNews_def statusUpdateArticle_def
      optSubstring0_def substring0_def optIndex0_def orElse_def optProp_def
      getPlaceholderImage_def placeholders_def caught_def outputOf_def succeeded_def js_def)

lemma shadowed_sort: "sortNews asciiRuntime [shadowedArticle] = Some [shadowedArticle]"
  by (simp add: sortNews_def)

lemma shadowed_unique: "removeDuplicates asciiRuntime [shadowedArticle] = Some [shadowedArticle]"
  by (simp add: removeDuplicates_def dedupKey_def shadowedArticle_def)

lemma shadowed_filter:
  "snd (filterNews asciiRuntime (updateLastUpdate lt (filteringApp\<lparr>allNews := [shadowedArticle]\<rparr>)))"
  by (simp add: filterNews_def applyFilters_def categoryMatch_def updateLastUpdate_def
      filteringApp_def idleApp_fields shadowedArticle_def js_def)

lemma shadowed_render:
  "snd (filterNews asciiRuntime
     (updateLastUpdate lt ((idleApp [exampleOther])\<lparr>allNews := [shadowedArticle]\<rparr>)))"
  by (simp add: filterNews_def applyFilters_def trim_def renderNews_def createNewsCard_def
      updateLastUpdate_def idleApp_fields shadowedArticle_def asciiRuntime_def asciiLower_def
      knownDate_def js_def)

lemma shadowed_try:
  "snd (fetchNews_try asciiRuntime lt (settleAll asciiRuntime shadowedCycle) filteringApp)"
  "snd (fetchNews_try asciiRuntime lt (settleAll asciiRuntime shadowedCycle)
     (idleApp [exampleOther]))"
  by (simp_all add: fetchNews_try_def shadowed_merge shadowed_sort shadowed_unique
      shadowed_filter shadowed_render)

lemma unsortable_merge:
  "mergeResults (settleAll asciiRuntime unsortableCycle) = unsortableNews"
  unfolding settleAll_def settled_adapters mergeResults_concat
  by (simp add: unsortableCycle_def unsortableNews_def unsortableArticle_def
      unsortableUpdate_def tryCryptoCompareNews_def tryCoinGeckoNews_def
      tryAlternativeNews_def statusUpdateArticle_def statusUpdate_def updateArticle_def
      optSubstring0_def substring0_def optIndex0_def orElse_def optProp_def
      getPlaceholderImage_def placeholders_def caught_def outputOf_def succeeded_def js_def)

lemma unsortable_sort: "sortNews asciiRuntime unsortableNews = None"
  by (simp add: sortNews_def unsortableNews_def unsortableArticle_def asciiRuntime_def
      knownDate_def)

lemma unsortable_try:
  "snd (fetchNews_try asciiRuntime lt (settleAll asciiRuntime unsortableCycle)
     (idleApp [exampleOther]))"
  by (simp add: fetchNews_try_def unsortable_merge unsortable_sort)

text \<open>
  C1, as the specification states it, fails: the first record of the news feed has no
  title, \<open>removeDuplicates\<close> throws on it, and the cycle that started with the list
  \<open>[exampleOther]\<close> ends with the merged list of the new cycle.
\<close>

theorem fetchNews_abort_counterexample:
  "snd (fetchNews_try asciiRuntime (localeTime brokenCycle) (settleAll asciiRuntime brokenCycle)
          (fst (fetchNews_begin (idleApp [exampleOther])))) \<and>
   allNews (idleApp [exampleOther]) = [exampleOther] \<and>
   allNews (fetchNews asciiRuntime brokenCycle (idleApp [exampleOther])) = [titlelessArticle] \<and>
   allNews (fetchNews asciiRuntime brokenCycle (idleApp [exampleOther]))
     \<noteq> allNews (idleApp [exampleOther]) \<and>
   container (fetchNews asciiRuntime brokenCycle (idleApp [exampleOther])) = ErrorMessage"
  by (simp add: broken_try broken_fetchNews titleless_differs idleApp_fields)

text \<open>
  C1, amended: when the code after the adapters have settled throws (in the sort, in
  \<open>removeDuplicates\<close>, in a filter callback or in the rendering of the cards), the cycle ends
  with the error message in the container and the in-flight flag reset; the article list
  is not restored. It is the merged list of the new cycle when the sort throws, that list
  sorted when \<open>removeDuplicates\<close> throws, and the deduplicated list when the filter stage or
  the rendering throws.
\<close>

theorem fetchNews_abort:
  assumes "snd (fetchNews_try rt lt results s)"
  shows "container (fetchNews_finish rt lt results s) = ErrorMessage \<and>
         \<not> isLoading (fetchNews_finish rt lt results s) \<and>
         (sortNews rt (mergeResults results) = None \<longrightarrow>
              allNews (fetchNews_finish rt lt results s) = mergeResults results) \<and>
         (\<forall>ordered. sortNews rt (mergeResults results) = Some ordered \<and>
              removeDuplicates rt ordered = None \<longrightarrow>
              allNews (fetchNews_finish rt lt results s) = ordered) \<and>
         (\<forall>ordered unique. sortNews rt (mergeResults results) = Some ordered \<and>
              removeDuplicates rt ordered = Some unique \<longrightarrow>
              allNews (fetchNews_finish rt lt results s) = unique)"
proof -
  have kept: "allNews (fst (filterNews rt t)) = allNews t" for t
    by (simp add: filterNews_def renderNews_def Let_def split: option.splits)
  from assms obtain s' where "fetchNews_try rt lt results s = (s', True)"
    by (cases "fetchNews_try rt lt results s") auto
  then have shown: "container (fetchNews_finish rt lt results s) = ErrorMessage"
    by (simp add: fetchNews_finish_def showError_def)
  have reset: "\<not> isLoading (fetchNews_finish rt lt results s)"
    by (simp add: fetchNews_finish_def showError_def split: prod.splits)
  have list: "allNews (fetchNews_finish rt lt results s) = allNews (fst (fetchNews_try rt lt results s))"
    by (simp add: fetchNews_finish_def showError_def split: prod.splits)
  have unsorted: "allNews (fst (fetchNews_try rt lt results s)) = mergeResults results"
    if "sortNews rt (mergeResults results) = None"
    using that by (simp add: fetchNews_try_def)
  have undeduped: "allNews (fst (fetchNews_try rt lt results s)) = ordered"
    if "sortNews rt (mergeResults results) = Some ordered" "removeDuplicates rt ordered = None"
    for ordered
    using that by (simp add: fetchNews_try_def)
  have deduped: "allNews (fst (fetchNews_try rt lt results s)) = unique"
    if "sortNews rt (mergeResults results) = Some ordered" "removeDuplicates rt ordered = Some unique"
    for ordered unique
    using that by (simp add: fetchNews_try_def kept updateLastUpdate_def)
  from shown reset list unsorted undeduped deduped show ?thesis by simp
qed

theorem fetchNews_abort_witness:
  "snd (fetchNews_try asciiRuntime [] (settleAll asciiRuntime brokenCycle) (idleApp [exampleOther])) \<and>
   sortNews asciiRuntime (mergeResults (settleAll asciiRuntime brokenCycle))
     = Some [titlelessArticle] \<and>
   removeDuplicates asciiRuntime [titlelessArticle] = None \<and>
   container (fetchNews_finish asciiRuntime [] (settleAll asciiRuntime brokenCycle)
     (idleApp [exampleOther])) = ErrorMessage \<and>
   allNews (fetchNews_finish asciiRuntime [] (settleAll asciiRuntime brokenCycle)
     (idleApp [exampleOther])) = [titlelessArticle] \<and>
   snd (fetchNews_try asciiRuntime [] (settleAll asciiRuntime shadowedCycle) filteringApp) \<and>
   sortNews asciiRuntime (mergeResults (settleAll asciiRuntime shadowedCycle))
     = Some [shadowedArticle] \<and>
   removeDuplicates asciiRuntime [shadowedArticle] = Some [shadowedArticle] \<and>
   container (fetchNews_finish asciiRuntime [] (settleAll asciiRuntime shadowedCycle)
     filteringApp) = ErrorMessage \<and>
   allNews (fetchNews_finish asciiRuntime [] (settleAll asciiRuntime shadowedCycle)
     filteringApp) = [shadowedArticle] \<and>
   snd (fetchNews_try asciiRuntime [] (settleAll asciiRuntime shadowedCycle)
     (idleApp [exampleOther])) \<and>
   container (fetchNews_finish asciiRuntime [] (settleAll asciiRuntime shadowedCycle)
     (idleApp [exampleOther])) = ErrorMessage \<and>
   allNews (fetchNews_finish asciiRuntime [] (settleAll asciiRuntime shadowedCycle)
     (idleApp [exampleOther])) = [shadowedArticle] \<and>
   snd (fetchNews_try asciiRuntime [] (settleAll asciiRuntime unsortableCycle)
     (idleApp [exampleOther])) \<and>
   sortNews asciiRuntime (mergeResults (settleAll asciiRuntime unsortableCycle)) = None \<and>
   container (fetchNews_finish asciiRuntime [] (settleAll asciiRuntime unsortableCycle)
     (idleApp [exampleOther])) = ErrorMessage \<and>
   allNews (fetchNews_finish asciiRuntime [] (settleAll asciiRuntime unsortableCycle)
     (idleApp [exampleOther])) = unsortableNews"
proof -
  have threw: "snd (fetchNews_try asciiRuntime [] (settleAll asciiRuntime brokenCycle)
      (idleApp [exampleOther]))"
    by (simp add: broken_try)
  have ordered: "sortNews asciiRuntime (mergeResults (settleAll asciiRuntime brokenCycle))
      = Some [titlelessArticle]"
    by (simp add: broken_settle mergeResults_def mergeStep_def sortNews_def)
  have thrown: "removeDuplicates asciiRuntime [titlelessArticle] = None"
    by (simp add: removeDuplicates_def dedupKey_def titlelessArticle_def)
  have ordered': "sortNews asciiRuntime (mergeResults (settleAll asciiRuntime shadowedCycle))
      = Some [shadowedArticle]"
    by (simp add: shadowed_merge shadowed_sort)
  have unordered: "sortNews asciiRuntime (mergeResults (settleAll asciiRuntime unsortableCycle))
      = None"
    by (simp add: unsortable_merge unsortable_sort)
  have first: "container (fetchNews_finish asciiRuntime [] (settleAll asciiRuntime brokenCycle)
       (idleApp [exampleOther])) = ErrorMessage \<and>
     allNews (fetchNews_finish asciiRuntime [] (settleAll asciiRuntime brokenCycle)
       (idleApp [exampleOther])) = [titlelessArticle]"
    using ordered thrown fetchNews_abort [OF threw] by blast
  have second: "container (fetchNews_finish asciiRuntime [] (settleAll asciiRuntime shadowedCycle)
       filteringApp) = ErrorMessage \<and>
     allNews (fetchNews_finish asciiRuntime [] (settleAll asciiRuntime shadowedCycle)
       filteringApp) = [shadowedArticle]"
    using ordered' shadowed_unique fetchNews_abort [OF shadowed_try(1)] by blast
  have third: "container (fetchNews_finish asciiRuntime [] (settleAll asciiRuntime shadowedCycle)
       (idleApp [exampleOther])) = ErrorMessage \<and>
     allNews (fetchNews_finish asciiRuntime [] (settleAll asciiRuntime shadowedCycle)
       (idleApp [exampleOther])) = [shadowedArticle]"
    using ordered' shadowed_unique fetchNews_abort [OF shadowed_try(2)] by blast
  have fourth: "container (fetchNews_finish asciiRuntime [] (settleAll asciiRuntime unsortableCycle)
       (idleApp [exampleOther])) = ErrorMessage \<and>
     allNews (fetchNews_finish asciiRuntime [] (settleAll asciiRuntime unsortableCycle)
       (idleApp [exampleOther])) = unsortableNews"
    using unordered unsortable_merge fetchNews_abort [OF unsortable_try] by simp
  show ?thesis
    using threw ordered thrown first shadowed_try ordered' shadowed_unique second third
      unsortable_try unordered fourth
    by simp
qed

lemma isLoading_filterNews: "isLoading (fst (filterNews rt s)) = isLoading s"
  by (simp add: filterNews_def renderNews_def Let_def split: option.splits)

lemma isLoading_finish: "\<not> isLoading (fetchNews_finish rt lt results s)"
  by (simp add: fetchNews_finish_def showError_def split: prod.splits)

lemma singleFlight_step: "singleFlight p \<Longrightarrow> singleFlight (step rt ev p)"
proof (cases ev)
  case (Request c)
  assume "singleFlight p"
  then show ?thesis
    using Request by (auto simp: singleFlight_def fetchNews_begin_def showLoading_def)
next
  case (Settle i)
  assume "singleFlight p"
  then show ?thesis
    using Settle by (auto simp: singleFlight_def isLoading_finish)
next
  case (SearchInput t)
  assume "singleFlight p"
  then show ?thesis
    using SearchInput by (simp add: singleFlight_def Let_def isLoading_filterNews)
next
  case (FilterClick f)
  assume "singleFlight p"
  then show ?thesis
    using FilterClick by (simp add: singleFlight_def Let_def isLoading_filterNews)
qed

lemma singleFlight_run: "singleFlight p \<Longrightarrow> singleFlight (run rt evs p)"
  unfolding run_def by (induction evs arbitrary: p) (simp_all add: singleFlight_step)

lemma request_dropped: "isLoading (controller p) \<Longrightarrow> step rt (Request c) p = p"
  by (simp add: fetchNews_begin_def)

lemma fresh_request:
  "run asciiRuntime [Request brokenCycle] (freshPage [exampleOther]) =
     \<lparr>controller = (idleApp [exampleOther])\<lparr>isLoading := True, container := Loading\<rparr>,
      pending = [brokenCycle]\<rparr>"
  by (simp add: run_def freshPage_def fetchNews_begin_def showLoading_def idleApp_fields)

text \<open>
  C5: between the call of \<open>fetchNews\<close> and the settling of its results the in-flight flag is
  set. A call of \<open>fetchNews\<close> in a state with the flag set returns at once: it calls no
  adapter, it leaves the state as it is, and the cycle in flight finishes as it would have
  without the call. Over any sequence of events of the page at most one cycle is in flight,
  and a request made while the flag is set changes nothing in what follows.
\<close>

theorem fetchNews_single_flight:
  "isLoading (fst (fetchNews_begin s0)) \<and>
   (isLoading s \<longrightarrow>
      fetchNews_begin s = (s, False) \<and>
      fetchNews rt c s = s \<and>
      fetchNews_finish rt lt results (fst (fetchNews_begin s)) = fetchNews_finish rt lt results s) \<and>
   (singleFlight p \<longrightarrow> singleFlight (run rt evs p)) \<and>
   (isLoading (controller p) \<longrightarrow>
      step rt (Request c) p = p \<and> run rt (Request c # evs) p = run rt evs p)"
proof -
  have "isLoading (fst (fetchNews_begin s0))"
    by (simp add: fetchNews_begin_def showLoading_def)
  moreover have "fetchNews_begin s = (s, False) \<and> fetchNews rt c s = s \<and>
      fetchNews_finish rt lt results (fst (fetchNews_begin s)) = fetchNews_finish rt lt results s"
    if "isLoading s"
    using that by (simp add: fetchNews_def fetchNews_begin_def)
  moreover have "run rt (Request c # evs) p = run rt evs p" if "isLoading (controller p)"
    using request_dropped [OF that, of rt c] by (simp add: run_def del: step.simps)
  ultimately show ?thesis
    using singleFlight_run request_dropped by blast
qed

theorem fetchNews_single_flight_witness:
  "isLoading (fst (fetchNews_begin (idleApp [exampleOther]))) \<and>
   snd (fetchNews_begin (idleApp [exampleOther])) \<and>
   fetchNews_begin (fst (fetchNews_begin (idleApp [exampleOther])))
     = (fst (fetchNews_begin (idleApp [exampleOther])), False) \<and>
   fetchNews asciiRuntime brokenCycle (fst (fetchNews_begin (idleApp [exampleOther])))
     = fst (fetchNews_begin (idleApp [exampleOther])) \<and>
   singleFlight (freshPage [exampleOther]) \<and>
   singleFlight (run asciiRuntime [Request brokenCycle, Request undatedCycle]
     (freshPage [exampleOther])) \<and>
   isLoading (controller (run asciiRuntime [Request brokenCycle] (freshPage [exampleOther]))) \<and>
   pending (run asciiRuntime [Request brokenCycle] (freshPage [exampleOther])) = [brokenCycle] \<and>
   step asciiRuntime (Request undatedCycle)
       (run asciiRuntime [Request brokenCycle] (freshPage [exampleOther]))
     = run asciiRuntime [Request brokenCycle] (freshPage [exampleOther])"
proof -
  have started: "snd (fetchNews_begin (idleApp [exampleOther]))"
    by (simp add: fetchNews_begin_def idleApp_fields)
  have fresh: "singleFlight (freshPage [exampleOther])"
    by (simp add: singleFlight_def freshPage_def idleApp_fields)
  have flight:
    "isLoading (controller (run asciiRuntime [Request brokenCycle] (freshPage [exampleOther])))"
    "pending (run asciiRuntime [Request brokenCycle] (freshPage [exampleOther])) = [brokenCycle]"
    by (simp_all add: fresh_request)
  note idle = fetchNews_single_flight [of "idleApp [exampleOther]"
        "fst (fetchNews_begin (idleApp [exampleOther]))" asciiRuntime brokenCycle _ _
        "freshPage [exampleOther]" "[Request brokenCycle, Request undatedCycle]"]
  note busy = fetchNews_single_flight [where rt = asciiRuntime and c = undatedCycle
        and p = "run asciiRuntime [Request brokenCycle] (freshPage [exampleOther])"]
  have dropped: "step asciiRuntime (Request undatedCycle)
       (run asciiRuntime [Request brokenCycle] (freshPage [exampleOther]))
     = run asciiRuntime [Request brokenCycle] (freshPage [exampleOther])"
    using flight(1) busy by blast
  show ?thesis
    using started fresh flight idle dropped by simp
qed

lemma undated_cards: "mapM (createNewsCard asciiRuntime) undatedNews = Some undatedCards"
  by (simp add: createNewsCard_def escapeHtml_def escapeUnit_def undatedNews_def
      undatedCards_def updateArticle_def updateCard_def asciiRuntime_def knownDate_def js_def)

lemma undated_shown:
  assumes "allNews t = undatedNews" "currentFilter t = js ''all''" "searchValue t = []"
  shows "filterNews asciiRuntime t = (t\<lparr>articleCount := 3, container := Cards undatedCards\<rparr>, False)"
proof -
  have empty: "trim (toLowerCase asciiRuntime []) = []"
    by (simp add: trim_def asciiRuntime_def asciiLower_def)
  have three: "length undatedNews = 3" "undatedNews \<noteq> []"
    by (simp_all add: undatedNews_def)
  show ?thesis
    using assms by (simp add: filterNews_def applyFilters_def empty renderNews_def three
        undated_cards)
qed

lemma example_fetchNews:
  "container (fetchNews asciiRuntime undatedCycle (idleApp [exampleOther])) = Cards undatedCards"
  "allNews (fetchNews asciiRuntime undatedCycle (idleApp [exampleOther])) = undatedNews"
  "isLoading (fetchNews asciiRuntime undatedCycle (idleApp [exampleOther])) = False"
proof -
  have unique: "removeDuplicates asciiRuntime undatedNews = Some undatedNews"
    by (simp add: removeDuplicates_def dedupKey_def undatedNews_def updateArticle_def
        asciiRuntime_def asciiLower_def js_def)
  have ran: "fetchNews_try asciiRuntime lt (settleAll asciiRuntime undatedCycle) t =
      ((updateLastUpdate lt (t\<lparr>allNews := undatedNews\<rparr>))
         \<lparr>articleCount := 3, container := Cards undatedCards\<rparr>, False)"
    if "currentFilter t = js ''all''" "searchValue t = []" for lt t
    using that
    by (simp add: fetchNews_try_def undated_merge undated_sort unique undated_shown
        updateLastUpdate_def)
  show "container (fetchNews asciiRuntime undatedCycle (idleApp [exampleOther])) = Cards undatedCards"
    "allNews (fetchNews asciiRuntime undatedCycle (idleApp [exampleOther])) = undatedNews"
    "isLoading (fetchNews asciiRuntime undatedCycle (idleApp [exampleOther])) = False"
    by (simp_all add: fetchNews_def fetchNews_begin_def fetchNews_finish_def idleApp_fields
        showLoading_def ran updateLastUpdate_def)
qed

text \<open>
  C10: the code that runs when the results have settled always ends with the in-flight flag
  reset, on the path through the \<open>catch\<close> as on the other; so a call of \<open>fetchNews\<close> that
  starts a cycle leaves the flag reset, and when a cycle in flight has settled the next
  call of \<open>fetchNews\<close> starts a cycle.
\<close>

theorem fetchNews_resets_flag:
  "\<not> isLoading (fetchNews_finish rt lt results s) \<and>
   (\<not> isLoading s \<longrightarrow> \<not> isLoading (fetchNews rt c s)) \<and>
   (i < length (pending p) \<longrightarrow>
      \<not> isLoading (controller (step rt (Settle i) p)) \<and>
      snd (fetchNews_begin (controller (step rt (Settle i) p))))"
  by (simp add: fetchNews_def fetchNews_begin_def isLoading_finish split: prod.splits)

theorem fetchNews_resets_flag_witness:
  "\<not> isLoading (idleApp [exampleOther]) \<and>
   \<not> isLoading (fetchNews asciiRuntime brokenCycle (idleApp [exampleOther])) \<and>
   container (fetchNews asciiRuntime brokenCycle (idleApp [exampleOther])) = ErrorMessage \<and>
   \<not> isLoading (fetchNews asciiRuntime undatedCycle (idleApp [exampleOther])) \<and>
   container (fetchNews asciiRuntime undatedCycle (idleApp [exampleOther])) = Cards undatedCards \<and>
   0 < length (pending (run asciiRuntime [Request brokenCycle] (freshPage [exampleOther]))) \<and>
   \<not> isLoading (controller (step asciiRuntime (Settle 0)
       (run asciiRuntime [Request brokenCycle] (freshPage [exampleOther])))) \<and>
   snd (fetchNews_begin (controller (step asciiRuntime (Settle 0)
       (run asciiRuntime [Request brokenCycle] (freshPage [exampleOther])))))"
proof -
  have idle: "\<not> isLoading (idleApp [exampleOther])"
    by (simp add: idleApp_fields)
  have flight:
    "0 < length (pending (run asciiRuntime [Request brokenCycle] (freshPage [exampleOther])))"
    by (simp add: fresh_request)
  note broken = fetchNews_resets_flag [of asciiRuntime "[]" "[]" "idleApp [exampleOther]"
      brokenCycle 0 "run asciiRuntime [Request brokenCycle] (freshPage [exampleOther])"]
  note good = fetchNews_resets_flag [of asciiRuntime "[]" "[]" "idleApp [exampleOther]"
      undatedCycle]
  have settled: "\<not> isLoading (controller (step asciiRuntime (Settle 0)
       (run asciiRuntime [Request brokenCycle] (freshPage [exampleOther])))) \<and>
     snd (fetchNews_begin (controller (step asciiRuntime (Settle 0)
       (run asciiRuntime [Request brokenCycle] (freshPage [exampleOther])))))"
    using flight broken by blast
  have "\<not> isLoading (fetchNews asciiRuntime brokenCycle (idleApp [exampleOther]))"
    "\<not> isLoading (fetchNews asciiRuntime undatedCycle (idleApp [exampleOther]))"
    using idle broken good by blast+
  then show ?thesis
    using idle flight settled by (simp add: broken_fetchNews example_fetchNews)
qed

end
